theory Spec2Isabelle
  imports Complex_Main "HOL-Library.Log_Nat"
begin

section \<open>The reference catalogue listings of \<^verbatim>\<open>src/App.tsx\<close>\<close>

text \<open>
  Modelled from the spec: the entries of the static tables, whose types are declared in
  the package \<^verbatim>\<open>@citysyntax/sbcc-core\<close> and not under \<^verbatim>\<open>src/\<close>. They have the fields the
  application reads: \<^verbatim>\<open>componentId\<close> and \<^verbatim>\<open>greenMarkCategory\<close> of a component,
  \<^verbatim>\<open>countryId\<close> of a country component and of a port. The tables themselves are
  parameters of every definition below. A category that is \<^verbatim>\<open>undefined\<close> is \<open>None\<close>.
\<close>

record component =
  componentId :: string
  greenMarkCategory :: "string option"

record country_component = component +
  countryId :: string

record port =
  countryId :: string

subsection \<open>\<^verbatim>\<open>unique\<close>: \<^verbatim>\<open>Array.from(new Set(arr))\<close>\<close>

text \<open>
  A JavaScript \<^verbatim>\<open>Set\<close> keeps its members in insertion order and ignores the insertion of
  a member it already has; \<^verbatim>\<open>new Set(arr)\<close> adds the elements of \<^verbatim>\<open>arr\<close> from left to
  right and \<^verbatim>\<open>Array.from\<close> lists the members in that order. The set is the list of its
  members, oldest first.
\<close>

type_synonym 'a js_set = "'a list"

definition Set_add :: "'a js_set \<Rightarrow> 'a \<Rightarrow> 'a js_set" where
  "Set_add s x = (if x \<in> set s then s else s @ [x])"

definition Set_new :: "'a list \<Rightarrow> 'a js_set" where
  "Set_new arr = foldl Set_add [] arr"

definition Array_from :: "'a js_set \<Rightarrow> 'a list" where
  "Array_from s = s"

definition unique :: "'a list \<Rightarrow> 'a list" where
  "unique arr = Array_from (Set_new arr)"

definition componentIds :: "component list \<Rightarrow> country_component list \<Rightarrow> string list" where
  "componentIds globalComponents countryComponents =
     unique (map component.componentId globalComponents
             @ map component.componentId countryComponents)"

definition countryIds :: "country_component list \<Rightarrow> port list \<Rightarrow> string list" where
  "countryIds countryComponents ports =
     unique (map country_component.countryId countryComponents
             @ map port.countryId ports)"

text \<open>
  The listing the specification asks for, in its own words: every identifier once, in the
  order of the first occurrences.
\<close>

fun first_occurrences :: "'a list \<Rightarrow> 'a list" where
  "first_occurrences [] = []"
| "first_occurrences (x # xs) = x # filter (\<lambda>y. y \<noteq> x) (first_occurrences xs)"

subsection \<open>\<^verbatim>\<open>componentIdToGreenmarkMap\<close>\<close>

text \<open>
  The accumulator of the \<^verbatim>\<open>reduce\<close> is a plain object, \<^verbatim>\<open>{}\<close>, whose prototype is
  \<^verbatim>\<open>Object.prototype\<close>. Its own properties are a map from identifiers to categories; a
  key can be present with the value \<^verbatim>\<open>undefined\<close> (\<open>Some None\<close>). The assignment
  \<^verbatim>\<open>acc[key] = value\<close> creates or replaces the own property, except under the key
  \<^verbatim>\<open>__proto__\<close>: there it calls the setter inherited from the prototype, which does
  nothing for a value that is neither an object nor \<^verbatim>\<open>null\<close>, as a category is.
\<close>

definition Object_prototype_keys :: "string list" where
  "Object_prototype_keys =
     [''constructor'', ''__defineGetter__'', ''__defineSetter__'', ''hasOwnProperty'',
      ''__lookupGetter__'', ''__lookupSetter__'', ''isPrototypeOf'', ''propertyIsEnumerable'',
      ''toString'', ''valueOf'', ''__proto__'', ''toLocaleString'']"

definition assign ::
  "(string \<rightharpoonup> string option) \<Rightarrow> string \<Rightarrow> string option \<Rightarrow> (string \<rightharpoonup> string option)" where
  "assign acc key v = (if key = ''__proto__'' then acc else acc(key \<mapsto> v))"

text \<open>
  The \<^verbatim>\<open>reduce\<close> runs over the global components followed by the country components, so
  a later entry replaces an earlier one with the same identifier.
\<close>

definition componentIdToGreenmarkMap ::
  "component list \<Rightarrow> country_component list \<Rightarrow> (string \<rightharpoonup> string option)" where
  "componentIdToGreenmarkMap globalComponents countryComponents =
     foldl (\<lambda>acc c. assign acc (component.componentId c) (component.greenMarkCategory c))
       Map.empty
       (map component.truncate globalComponents @ map component.truncate countryComponents)"

section \<open>JavaScript values and the coercion \<^verbatim>\<open>Number(value)\<close>\<close>

text \<open>
  A JavaScript number is NaN, an infinity or a finite binary64 value, kept as the
  rational it denotes; the two zeros are one value, which no comparison of the validator
  tells apart.
\<close>

datatype jsnum = NaN | Fin rat | PosInf | NegInf

text \<open>
  The values the form can hold: the primitives, and the values a plain object inherits
  from \<^verbatim>\<open>Object.prototype\<close> (\<open>JInherited key\<close>: a built-in function, and under
  \<^verbatim>\<open>__proto__\<close> the prototype itself).
\<close>

datatype jsval = JUndefined | JNull | JBool bool | JNum jsnum | JStr string | JInherited string

fun js_neg :: "jsnum \<Rightarrow> jsnum" where
  "js_neg NaN = NaN"
| "js_neg (Fin q) = Fin (- q)"
| "js_neg PosInf = NegInf"
| "js_neg NegInf = PosInf"

text \<open>The comparison \<^verbatim>\<open>a < b\<close> of two numbers: false when either is NaN.\<close>

fun js_lt :: "jsnum \<Rightarrow> jsnum \<Rightarrow> bool" where
  "js_lt NaN _ = False"
| "js_lt _ NaN = False"
| "js_lt (Fin a) (Fin b) = (a < b)"
| "js_lt (Fin _) PosInf = True"
| "js_lt (Fin _) NegInf = False"
| "js_lt PosInf _ = False"
| "js_lt NegInf NegInf = False"
| "js_lt NegInf _ = True"

subsection \<open>Rounding to binary64\<close>

text \<open>
  The number for a mathematical value: the nearest binary64 value, ties to the even
  significand. A value whose binary exponent is \<open>e\<close> is rounded to a multiple of
  \<open>pow2 (e - 52)\<close>; below the exponent \<open>-1022\<close> the spacing stays that of the subnormal
  values. A result of \<open>pow2 1024\<close> or more is an infinity, which takes an exponent of
  1023 at least.
\<close>

definition pow2 :: "int \<Rightarrow> rat" where
  "pow2 e = (if 0 \<le> e then 2 ^ nat e else 1 / 2 ^ nat (- e))"

text \<open>The binary exponent of a positive value: \<open>pow2 e \<le> a < pow2 (e + 1)\<close>.\<close>

definition floor_log2 :: "rat \<Rightarrow> int" where
  "floor_log2 a =
     (if 1 \<le> a then bitlen \<lfloor>a\<rfloor> - 1 else - bitlen (\<lceil>1 / a\<rceil> - 1))"

definition round_half_even :: "rat \<Rightarrow> int" where
  "round_half_even x =
     (let f = \<lfloor>x\<rfloor>; d = x - of_int f
      in if d < 1 / 2 then f else if 1 / 2 < d then f + 1 else if even f then f else f + 1)"

definition RoundMVResult :: "rat \<Rightarrow> jsnum" where
  "RoundMVResult n =
     (if n = 0 then Fin 0
      else
        let a = \<bar>n\<bar>;
            e = max (floor_log2 a) (- 1022);
            ulp = pow2 (e - 52);
            r = of_int (round_half_even (a / ulp)) * ulp
        in if e < 1023 then Fin (if n < 0 then - r else r)
           else if 2 ^ 1024 \<le> r then (if n < 0 then NegInf else PosInf)
           else Fin (if n < 0 then - r else r))"

text \<open>
  A value of the runtime: a number in it is a binary64 value, which rounding leaves as
  it is.
\<close>

definition is_jsval :: "jsval \<Rightarrow> bool" where
  "is_jsval v = (case v of JNum (Fin q) \<Rightarrow> RoundMVResult q = Fin q | _ \<Rightarrow> True)"

subsection \<open>StringToNumber\<close>

text \<open>
  A string is the sequence of the bytes of its UTF-8 encoding. The white space that
  \<^verbatim>\<open>Number\<close> strips from both ends of a string is the code points TAB, LF, VT, FF, CR,
  SPACE, U+00A0, U+1680, U+2000 to U+200A, U+2028, U+2029, U+202F, U+205F, U+3000 and
  U+FEFF, listed here by their encodings.
\<close>

definition StrWhiteSpaceChar :: "nat list list" where
  "StrWhiteSpaceChar =
     [[9], [10], [11], [12], [13], [32],
      [194, 160],
      [225, 154, 128],
      [226, 128, 128], [226, 128, 129], [226, 128, 130], [226, 128, 131], [226, 128, 132],
      [226, 128, 133], [226, 128, 134], [226, 128, 135], [226, 128, 136], [226, 128, 137],
      [226, 128, 138],
      [226, 128, 168], [226, 128, 169],
      [226, 128, 175],
      [226, 129, 159],
      [227, 128, 128],
      [239, 187, 191]]"

text \<open>
  The number of bytes of the white space character a string starts with, among the given
  encodings; 0 when it starts with none.
\<close>

definition leading_white_space :: "nat list list \<Rightarrow> string \<Rightarrow> nat" where
  "leading_white_space ws s =
     (case filter (\<lambda>w. take (length w) (map of_char s) = w) ws of
        [] \<Rightarrow> 0
      | w # _ \<Rightarrow> length w)"

function strip :: "nat list list \<Rightarrow> string \<Rightarrow> string" where
  "strip ws s =
     (if s = [] \<or> leading_white_space ws s = 0 then s
      else strip ws (drop (leading_white_space ws s) s))"
  by pat_completeness auto
termination
  by (relation "measure (\<lambda>(ws, s). length s)") auto

declare strip.simps [simp del]

definition trim :: "string \<Rightarrow> string" where
  "trim s = rev (strip (map rev StrWhiteSpaceChar) (rev (strip StrWhiteSpaceChar s)))"

text \<open>
  The grammar of ECMAScript's StringNumericLiteral: optional white space around nothing
  (the value 0), a signed decimal literal with optional fraction and exponent,
  \<^verbatim>\<open>Infinity\<close>, or an unsigned hexadecimal, octal or binary integer literal; anything else
  is NaN.
\<close>

definition is_digit :: "char \<Rightarrow> bool" where
  "is_digit c = (48 \<le> (of_char c :: nat) \<and> (of_char c :: nat) \<le> 57)"

definition hex_digit :: "char \<Rightarrow> int option" where
  "hex_digit c =
     (let n = (of_char c :: int) in
      if 48 \<le> n \<and> n \<le> 57 then Some (n - 48)
      else if 97 \<le> n \<and> n \<le> 102 then Some (n - 87)
      else if 65 \<le> n \<and> n \<le> 70 then Some (n - 55)
      else None)"

text \<open>The value of a sequence of digits in a base; \<open>None\<close> when a character is no digit of it.\<close>

definition digits_value :: "int \<Rightarrow> string \<Rightarrow> int option" where
  "digits_value base ds =
     (if ds \<noteq> [] \<and> list_all (\<lambda>c. case hex_digit c of None \<Rightarrow> False | Some d \<Rightarrow> d < base) ds
      then Some (foldl (\<lambda>a c. base * a + the (hex_digit c)) 0 ds)
      else None)"

definition NonDecimalIntegerLiteral :: "string \<Rightarrow> int option" where
  "NonDecimalIntegerLiteral s =
     (case s of
        z # p # ds \<Rightarrow>
          if z \<noteq> CHR ''0'' then None
          else if p = CHR ''x'' \<or> p = CHR ''X'' then digits_value 16 ds
          else if p = CHR ''o'' \<or> p = CHR ''O'' then digits_value 8 ds
          else if p = CHR ''b'' \<or> p = CHR ''B'' then digits_value 2 ds
          else None
      | _ \<Rightarrow> None)"

definition SignedInteger :: "string \<Rightarrow> int option" where
  "SignedInteger s =
     (case s of
        [] \<Rightarrow> None
      | c # r \<Rightarrow>
          if c = CHR ''+'' then digits_value 10 r
          else if c = CHR ''-'' then map_option uminus (digits_value 10 r)
          else digits_value 10 s)"

definition ExponentPart :: "string \<Rightarrow> int option" where
  "ExponentPart s =
     (case s of
        [] \<Rightarrow> Some 0
      | c # r \<Rightarrow> if c = CHR ''e'' \<or> c = CHR ''E'' then SignedInteger r else None)"

definition scale10 :: "rat \<Rightarrow> int \<Rightarrow> rat" where
  "scale10 q e = (if 0 \<le> e then q * 10 ^ nat e else q / 10 ^ nat (- e))"

text \<open>The mathematical value of the digits before and after the point.\<close>

definition decimal_value :: "string \<Rightarrow> string \<Rightarrow> rat" where
  "decimal_value ip fp =
     of_int (the (digits_value 10 (CHR ''0'' # ip)))
     + of_int (the (digits_value 10 (CHR ''0'' # fp))) / 10 ^ length fp"

definition StrUnsignedDecimalLiteral :: "string \<Rightarrow> jsnum option" where
  "StrUnsignedDecimalLiteral s =
     (if s = ''Infinity'' then Some PosInf
      else
        let ip = takeWhile is_digit s;
            r = dropWhile is_digit s;
            fp = (case r of [] \<Rightarrow> [] | c # t \<Rightarrow> if c = CHR ''.'' then takeWhile is_digit t else []);
            ex = (case r of [] \<Rightarrow> [] | c # t \<Rightarrow> if c = CHR ''.'' then dropWhile is_digit t else r)
        in if ip = [] \<and> fp = [] then None
           else case ExponentPart ex of
                  None \<Rightarrow> None
                | Some e \<Rightarrow> Some (RoundMVResult (scale10 (decimal_value ip fp) e)))"

definition StrDecimalLiteral :: "string \<Rightarrow> jsnum option" where
  "StrDecimalLiteral s =
     (case s of
        [] \<Rightarrow> None
      | c # r \<Rightarrow>
          if c = CHR ''+'' then StrUnsignedDecimalLiteral r
          else if c = CHR ''-'' then map_option js_neg (StrUnsignedDecimalLiteral r)
          else StrUnsignedDecimalLiteral s)"

definition StringToNumber :: "string \<Rightarrow> jsnum" where
  "StringToNumber s =
     (let t = trim s in
      if t = [] then Fin 0
      else case NonDecimalIntegerLiteral t of
             Some n \<Rightarrow> RoundMVResult (of_int n)
           | None \<Rightarrow> (case StrDecimalLiteral t of Some n \<Rightarrow> n | None \<Rightarrow> NaN))"

text \<open>
  \<^verbatim>\<open>Number\<close> of a function or of \<^verbatim>\<open>Object.prototype\<close> converts its string form, which is
  no numeral.
\<close>

fun Number :: "jsval \<Rightarrow> jsnum" where
  "Number JUndefined = NaN"
| "Number JNull = Fin 0"
| "Number (JBool b) = (if b then Fin 1 else Fin 0)"
| "Number (JNum n) = n"
| "Number (JStr s) = StringToNumber s"
| "Number (JInherited key) = NaN"

text \<open>
  The decimal strings of the specification: digits, and optionally a point and further
  digits.
\<close>

definition is_decimal_string :: "string \<Rightarrow> bool" where
  "is_decimal_string s =
     (takeWhile is_digit s \<noteq> []
      \<and> (case dropWhile is_digit s of
            [] \<Rightarrow> True
          | c # t \<Rightarrow> c = CHR ''.'' \<and> list_all is_digit t))"

section \<open>The row schema\<close>

text \<open>
  The combinators of the validation library zod that \<^verbatim>\<open>rowschema\<close> is built from:
  \<^verbatim>\<open>z.string()\<close>, \<^verbatim>\<open>z.enum([...])\<close>, \<^verbatim>\<open>z.coerce.number()\<close> with its \<^verbatim>\<open>.min(n)\<close> checks,
  \<^verbatim>\<open>.optional()\<close> and \<^verbatim>\<open>z.object({...})\<close>. A coercing number schema first replaces its input
  by \<^verbatim>\<open>Number(input)\<close>, refuses NaN with \<^verbatim>\<open>invalid_type\<close> and then runs its checks;
  \<^verbatim>\<open>.min(n)\<close> reports \<^verbatim>\<open>too_small\<close> when \<^verbatim>\<open>data < n\<close>. An optional schema returns
  \<^verbatim>\<open>undefined\<close> for \<^verbatim>\<open>undefined\<close> and hands every other input to the inner schema.

  The major version of the library is fixed outside \<^verbatim>\<open>src/\<close>, so it is a parameter: version
  4 refuses the infinities as well as NaN in a number schema and reports a value outside
  an enumeration as \<^verbatim>\<open>invalid_value\<close>.
\<close>

datatype zod_major = Zod3 | Zod4

datatype issue_code = invalid_type | invalid_enum_value | invalid_value | too_small

datatype zcheck = Min rat

datatype zschema =
    ZodString
  | ZodEnum "string list"
  | ZodNumber bool "zcheck list"
  | ZodOptional zschema

fun check_issues :: "jsnum \<Rightarrow> zcheck \<Rightarrow> issue_code list" where
  "check_issues n (Min m) = (if js_lt n (Fin m) then [too_small] else [])"

fun zparse :: "zod_major \<Rightarrow> zschema \<Rightarrow> jsval \<Rightarrow> issue_code list + jsval" where
  "zparse ver ZodString v =
     (case v of JStr s \<Rightarrow> Inr v | _ \<Rightarrow> Inl [invalid_type])"
| "zparse ver (ZodEnum vs) v =
     (case v of
        JStr s \<Rightarrow>
          if s \<in> set vs then Inr v
          else Inl [if ver = Zod3 then invalid_enum_value else invalid_value]
      | _ \<Rightarrow> Inl [if ver = Zod3 then invalid_type else invalid_value])"
| "zparse ver (ZodNumber coerce checks) v =
     (case (if coerce then JNum (Number v) else v) of
        JNum n \<Rightarrow>
          if n = NaN \<or> (ver = Zod4 \<and> (n = PosInf \<or> n = NegInf)) then Inl [invalid_type]
          else (case concat (map (check_issues n) checks) of
                  [] \<Rightarrow> Inr (JNum n)
                | issues \<Rightarrow> Inl issues)
      | _ \<Rightarrow> Inl [invalid_type])"
| "zparse ver (ZodOptional inner) v =
     (if v = JUndefined then Inr JUndefined else zparse ver inner v)"

text \<open>
  A row is a JavaScript object with the keys below; reading a key the object does not
  have gives \<^verbatim>\<open>undefined\<close>, so an object is the function from its keys to their values.
\<close>

datatype field =
    componentId | greenMarkCategory | countryId | quantity | units
  | manualMarineDistance | marineVehicleId | internationalRoadVehicleId
  | internationalRoadDistance | localRoadVehicleId | localRoadDistance

type_synonym row = "field \<Rightarrow> jsval"

definition rowschema :: "(field \<times> zschema) list" where
  "rowschema =
     [(componentId, ZodString),
      (greenMarkCategory, ZodOptional (ZodEnum [''Concrete'', ''Steel'', ''Glass''])),
      (countryId, ZodString),
      (quantity, ZodNumber True [Min 0]),
      (units, ZodEnum [''tonne'', ''kg'']),
      (manualMarineDistance, ZodOptional (ZodNumber True [])),
      (marineVehicleId, ZodString),
      (internationalRoadVehicleId, ZodString),
      (internationalRoadDistance, ZodNumber True [Min 0]),
      (localRoadVehicleId, ZodString),
      (localRoadDistance, ZodNumber True [Min 0])]"

text \<open>
  \<^verbatim>\<open>z.object(shape)\<close> parses the value under every key of the shape, collects the issues of
  all keys under their paths, and succeeds with the object of the parsed values when
  there is no issue.
\<close>

type_synonym issue = "field \<times> issue_code"

definition key_issues :: "zod_major \<Rightarrow> row \<Rightarrow> field \<times> zschema \<Rightarrow> issue list" where
  "key_issues ver data ks =
     (case zparse ver (snd ks) (data (fst ks)) of
        Inl codes \<Rightarrow> map (Pair (fst ks)) codes
      | Inr _ \<Rightarrow> [])"

definition key_value :: "zod_major \<Rightarrow> (field \<times> zschema) list \<Rightarrow> row \<Rightarrow> field \<Rightarrow> jsval" where
  "key_value ver shape data k =
     (case map_of shape k of
        None \<Rightarrow> JUndefined
      | Some schema \<Rightarrow> (case zparse ver schema (data k) of Inl _ \<Rightarrow> JUndefined | Inr v \<Rightarrow> v))"

definition zobject_parse ::
  "zod_major \<Rightarrow> (field \<times> zschema) list \<Rightarrow> row \<Rightarrow> issue list + row" where
  "zobject_parse ver shape data =
     (case concat (map (key_issues ver data) shape) of
        [] \<Rightarrow> Inr (key_value ver shape data)
      | issues \<Rightarrow> Inl issues)"

definition rowschema_safeParse :: "zod_major \<Rightarrow> row \<Rightarrow> issue list + row" where
  "rowschema_safeParse ver data = zobject_parse ver rowschema data"

text \<open>The issues reported under one key of a candidate row.\<close>

definition field_errors :: "zod_major \<Rightarrow> row \<Rightarrow> field \<Rightarrow> issue_code list" where
  "field_errors ver data k =
     (case rowschema_safeParse ver data of
        Inl issues \<Rightarrow> map snd (filter (\<lambda>i. fst i = k) issues)
      | Inr _ \<Rightarrow> [])"

section \<open>The form: Calculator State\<close>

text \<open>
  Modelled from the spec: the Output entity, whose type is declared in
  \<^verbatim>\<open>@citysyntax/sbcc-core\<close> and not under \<^verbatim>\<open>src/\<close>. It has the fields the specification
  lists, which are the ones \<^verbatim>\<open>App\<close> reads from it.
\<close>

record output_row =
  a1a3 :: jsnum
  a4 :: jsnum

record Output =
  version :: string
  totalEmissions :: jsnum
  embodiedCarbonPerGfa :: jsnum
  embodiedCarbonPerGfaComparedToReference :: jsnum
  greenMarkScore :: jsnum
  rows :: "output_row list"

record reference_value =
  buildingType :: string
  referenceValue :: jsnum

text \<open>
  The values held by \<^verbatim>\<open>useForm\<close>: the rows, the gross floor area and the reference value.
  \<^verbatim>\<open>form.watch()\<close> returns them as they are, and \<^verbatim>\<open>App\<close> hands them to the calculation
  function of the package, which is a parameter here.
\<close>

record form_values =
  rows :: "row list"
  gfa :: jsval
  referenceValue :: jsval

datatype js_error = TypeError

text \<open>
  \<^verbatim>\<open>defaultInputRow\<close> reads \<^verbatim>\<open>globalComponents[0].componentId\<close>, and the default values read
  \<^verbatim>\<open>referenceValues[0].referenceValue\<close>: a TypeError on an empty table.
\<close>

definition defaultInputRow :: "component list \<Rightarrow> js_error + row" where
  "defaultInputRow globalComponents =
     (case globalComponents of
        [] \<Rightarrow> Inl TypeError
      | c # _ \<Rightarrow>
          Inr ((\<lambda>_. JUndefined)
            (componentId := JStr (component.componentId c),
             countryId := JStr ''Singapore'',
             quantity := JNum (Fin 20),
             units := JStr ''tonne'',
             marineVehicleId := JStr ''Bulk carrier'',
             internationalRoadVehicleId := JStr ''Very heavy goods vehicle'',
             internationalRoadDistance := JNum (Fin 0),
             localRoadVehicleId := JStr ''Heavy goods vehicle'',
             localRoadDistance := JNum (Fin 50))))"

definition defaultValues ::
  "component list \<Rightarrow> reference_value list \<Rightarrow> js_error + form_values" where
  "defaultValues globalComponents referenceValues =
     (case defaultInputRow globalComponents of
        Inl e \<Rightarrow> Inl e
      | Inr r \<Rightarrow>
          (case referenceValues of
             [] \<Rightarrow> Inl TypeError
           | rv # _ \<Rightarrow>
               Inr \<lparr>form_values.rows = [r],
                    gfa = JNum (Fin 1000),
                    form_values.referenceValue = JNum (reference_value.referenceValue rv)\<rparr>))"

text \<open>
  The name of a registered field: \<^verbatim>\<open>rows.${index}.key\<close>, \<^verbatim>\<open>gfa\<close> or \<^verbatim>\<open>referenceValue\<close>.
  The controls of row \<^verbatim>\<open>index\<close> are created by \<^verbatim>\<open>rows.map((_, index) => ...)\<close> at every
  render, so a handler runs with an index below the number of rows; the theorems about
  handlers carry that hypothesis.
\<close>

datatype path = RowField nat field | Gfa | ReferenceValue

fun set_path :: "path \<Rightarrow> jsval \<Rightarrow> form_values \<Rightarrow> form_values" where
  "set_path (RowField index key) v fv =
     fv\<lparr>form_values.rows :=
          (form_values.rows fv)[index := ((form_values.rows fv) ! index)(key := v)]\<rparr>"
| "set_path Gfa v fv = fv\<lparr>gfa := v\<rparr>"
| "set_path ReferenceValue v fv = fv\<lparr>form_values.referenceValue := v\<rparr>"

fun get_path :: "path \<Rightarrow> form_values \<Rightarrow> jsval" where
  "get_path (RowField index key) fv = ((form_values.rows fv) ! index) key"
| "get_path Gfa fv = gfa fv"
| "get_path ReferenceValue fv = form_values.referenceValue fv"

text \<open>
  \<^verbatim>\<open>field.onChange\<close> of a controlled field and \<^verbatim>\<open>form.setValue\<close> both store the value they
  are given under the field's name. The resolver built from the schema is not consulted
  by either: it only computes the error messages of a validation run, and the form is
  created with the default mode, in which a run is started by a submit handler, which
  \<^verbatim>\<open>App\<close> does not have.
\<close>

definition field_onChange :: "path \<Rightarrow> jsval \<Rightarrow> form_values \<Rightarrow> form_values" where
  "field_onChange name v fv = set_path name v fv"

definition form_setValue :: "path \<Rightarrow> jsval \<Rightarrow> form_values \<Rightarrow> form_values" where
  "form_setValue name v fv = set_path name v fv"

definition form_watch :: "form_values \<Rightarrow> form_values" where
  "form_watch fv = fv"

text \<open>
  \<^verbatim>\<open><Input type="number" {...field} />\<close>: the change event carries the text of the input,
  a string.
\<close>

definition Input_onChange :: "path \<Rightarrow> string \<Rightarrow> form_values \<Rightarrow> form_values" where
  "Input_onChange name s fv = field_onChange name (JStr s) fv"

definition App_output :: "(form_values \<Rightarrow> Output) \<Rightarrow> form_values \<Rightarrow> Output" where
  "App_output calculateGreenMark fv = calculateGreenMark (form_watch fv)"

subsection \<open>Appending and copying rows\<close>

text \<open>
  \<^verbatim>\<open>append\<close> of \<^verbatim>\<open>useFieldArray\<close> adds the row after the last one. The copy button of row
  \<^verbatim>\<open>index\<close> appends \<^verbatim>\<open>{ ...rows[index] }\<close>, a new object with the keys and values of the
  row; every value of a row is a primitive, so the spread is the row's value.
\<close>

definition append :: "row \<Rightarrow> form_values \<Rightarrow> form_values" where
  "append r fv = fv\<lparr>form_values.rows := form_values.rows fv @ [r]\<rparr>"

definition copy_onClick :: "nat \<Rightarrow> form_values \<Rightarrow> form_values" where
  "copy_onClick index fv = append (form_values.rows (form_watch fv) ! index) fv"

subsection \<open>The cascade from \<^verbatim>\<open>componentId\<close> to \<^verbatim>\<open>greenMarkCategory\<close>\<close>

text \<open>
  Reading \<^verbatim>\<open>componentIdToGreenmarkMap[v]\<close>: the own property when there is one; otherwise
  the value inherited from \<^verbatim>\<open>Object.prototype\<close> when the key is one of its property names,
  and \<^verbatim>\<open>undefined\<close> when it is not.
\<close>

definition lookup_category :: "(string \<rightharpoonup> string option) \<Rightarrow> string \<Rightarrow> jsval" where
  "lookup_category m v =
     (case m v of
        None \<Rightarrow> if v \<in> set Object_prototype_keys then JInherited v else JUndefined
      | Some None \<Rightarrow> JUndefined
      | Some (Some c) \<Rightarrow> JStr c)"

definition componentId_onValueChange ::
  "(string \<rightharpoonup> string option) \<Rightarrow> nat \<Rightarrow> string \<Rightarrow> form_values \<Rightarrow> form_values" where
  "componentId_onValueChange m index v fv =
     (let fv1 = field_onChange (RowField index componentId) (JStr v) fv;
          greenMarkCategory' = lookup_category m v
      in form_setValue (RowField index greenMarkCategory) greenMarkCategory' fv1)"

section \<open>\<^verbatim>\<open>SelectInput\<close>: the choosers\<close>

text \<open>
  A chooser gets its value and its \<^verbatim>\<open>onValueChange\<close> from the field it is bound to and
  keeps one piece of state of its own, \<^verbatim>\<open>open\<close>, initially false, which
  \<^verbatim>\<open>onOpenChange={setOpen}\<close> replaces. Its options are strings or pairs of a value and a
  label. While open it renders one item for every option; while closed it renders, when
  the value is a non-empty string, a single disabled item for the value, labelled by the
  value itself when the first option is a string and by the label of the first option
  with that value otherwise.
\<close>

datatype select_options = StringOptions "string list" | LabelledOptions "(string \<times> string) list"

record select_item =
  item_value :: string
  item_label :: "string option"
  item_disabled :: bool

definition closed_label :: "select_options \<Rightarrow> string \<Rightarrow> string option" where
  "closed_label options v =
     (case options of
        StringOptions [] \<Rightarrow> None
      | StringOptions (_ # _) \<Rightarrow> Some v
      | LabelledOptions os \<Rightarrow> map_option snd (find (\<lambda>opt. fst opt = v) os))"

definition SelectInput_items :: "jsval \<Rightarrow> select_options \<Rightarrow> bool \<Rightarrow> select_item list" where
  "SelectInput_items v options is_open =
     (if is_open then
        (case options of
           StringOptions os \<Rightarrow>
             map (\<lambda>opt. \<lparr>item_value = opt, item_label = Some opt, item_disabled = False\<rparr>) os
         | LabelledOptions os \<Rightarrow>
             map (\<lambda>opt. \<lparr>item_value = fst opt, item_label = Some (snd opt), item_disabled = False\<rparr>) os)
      else
        (case v of
           JStr s \<Rightarrow>
             if s = [] then []
             else [\<lparr>item_value = s, item_label = closed_label options s, item_disabled = True\<rparr>]
         | _ \<Rightarrow> []))"

text \<open>
  The choosers \<^verbatim>\<open>App\<close> renders: seven in every row and one for the reference value, each
  bound to one field. The component chooser's \<^verbatim>\<open>onValueChange\<close> is the cascade; every other
  chooser passes \<^verbatim>\<open>onChange\<close> of its field.
\<close>

datatype chooser =
    ComponentChooser nat
  | CategoryChooser nat
  | CountryChooser nat
  | UnitsChooser nat
  | MarineVehicleChooser nat
  | InternationalRoadVehicleChooser nat
  | LocalRoadVehicleChooser nat
  | ReferenceValueChooser

fun chooser_name :: "chooser \<Rightarrow> path" where
  "chooser_name (ComponentChooser index) = RowField index componentId"
| "chooser_name (CategoryChooser index) = RowField index greenMarkCategory"
| "chooser_name (CountryChooser index) = RowField index countryId"
| "chooser_name (UnitsChooser index) = RowField index units"
| "chooser_name (MarineVehicleChooser index) = RowField index marineVehicleId"
| "chooser_name (InternationalRoadVehicleChooser index) = RowField index internationalRoadVehicleId"
| "chooser_name (LocalRoadVehicleChooser index) = RowField index localRoadVehicleId"
| "chooser_name ReferenceValueChooser = ReferenceValue"

fun chooser_onValueChange ::
  "(string \<rightharpoonup> string option) \<Rightarrow> chooser \<Rightarrow> string \<Rightarrow> form_values \<Rightarrow> form_values" where
  "chooser_onValueChange m (ComponentChooser index) v fv = componentId_onValueChange m index v fv"
| "chooser_onValueChange m c v fv = field_onChange (chooser_name c) (JStr v) fv"

record ui =
  form :: form_values
  is_open :: "chooser \<Rightarrow> bool"

datatype select_event = OpenChange bool | ValueChange string

fun SelectInput_event ::
  "(string \<rightharpoonup> string option) \<Rightarrow> ui \<Rightarrow> chooser \<times> select_event \<Rightarrow> ui" where
  "SelectInput_event m u (c, OpenChange b) = u\<lparr>is_open := (is_open u)(c := b)\<rparr>"
| "SelectInput_event m u (c, ValueChange v) = u\<lparr>form := chooser_onValueChange m c v (form u)\<rparr>"

definition SelectInput_events ::
  "(string \<rightharpoonup> string option) \<Rightarrow> ui \<Rightarrow> (chooser \<times> select_event) list \<Rightarrow> ui" where
  "SelectInput_events m u evs = foldl (SelectInput_event m) u evs"

text \<open>
  The value a chooser is given: the value of its field, and for the reference value
  \<^verbatim>\<open>value.toString()\<close>. The decimal that \<^verbatim>\<open>Number.prototype.toString\<close> writes for a number
  is a parameter. The form holds a number or a string under \<^verbatim>\<open>referenceValue\<close>: the
  default is a number and the chooser stores strings. Any other value is passed on as it
  is (on \<^verbatim>\<open>undefined\<close> and \<^verbatim>\<open>null\<close> the call has no result).
\<close>

definition chooser_value :: "(jsnum \<Rightarrow> string) \<Rightarrow> ui \<Rightarrow> chooser \<Rightarrow> jsval" where
  "chooser_value Number_toString u c =
     (case c of
        ReferenceValueChooser \<Rightarrow>
          (case form_values.referenceValue (form u) of
             JNum n \<Rightarrow> JStr (Number_toString n)
           | JBool b \<Rightarrow> JStr (if b then ''true'' else ''false'')
           | v \<Rightarrow> v)
      | _ \<Rightarrow> get_path (chooser_name c) (form u))"

text \<open>The items a chooser shows in a state of the interface, for the options it was given.\<close>

definition chooser_items ::
  "(jsnum \<Rightarrow> string) \<Rightarrow> ui \<Rightarrow> chooser \<Rightarrow> select_options \<Rightarrow> select_item list" where
  "chooser_items Number_toString u c options =
     SelectInput_items (chooser_value Number_toString u c) options (is_open u c)"

section \<open>The export button\<close>

text \<open>
  \<^verbatim>\<open>JSON.stringify(output, null, 2)\<close> writes the own properties of the object in their
  order, a finite number as a number and NaN or an infinity as \<^verbatim>\<open>null\<close>. The document is
  kept as the tree that the text spells out.
\<close>

datatype json =
    JsonNull
  | JsonNumber rat
  | JsonString string
  | JsonArray "json list"
  | JsonObject "(string \<times> json) list"

fun json_number :: "jsnum \<Rightarrow> json" where
  "json_number (Fin q) = JsonNumber q"
| "json_number _ = JsonNull"

definition json_output_row :: "output_row \<Rightarrow> json" where
  "json_output_row r =
     JsonObject [(''a1a3'', json_number (a1a3 r)), (''a4'', json_number (a4 r))]"

definition JSON_stringify :: "Output \<Rightarrow> json" where
  "JSON_stringify out =
     JsonObject
       [(''version'', JsonString (version out)),
        (''totalEmissions'', json_number (totalEmissions out)),
        (''embodiedCarbonPerGfa'', json_number (embodiedCarbonPerGfa out)),
        (''embodiedCarbonPerGfaComparedToReference'',
           json_number (embodiedCarbonPerGfaComparedToReference out)),
        (''greenMarkScore'', json_number (greenMarkScore out)),
        (''rows'', JsonArray (map json_output_row (Output.rows out)))]"

text \<open>
  The click handler wraps the text in one \<^verbatim>\<open>Blob\<close> of type \<^verbatim>\<open>application/json\<close>, points
  an anchor at it, names the download and clicks the anchor. It writes nothing to the
  form. The result is the form, as it was, and the downloads started.
\<close>

record blob =
  blob_content :: json
  blob_type :: string

record anchor =
  href :: blob
  download :: string

definition download_onClick ::
  "(form_values \<Rightarrow> Output) \<Rightarrow> form_values \<Rightarrow> form_values \<times> anchor list" where
  "download_onClick calculateGreenMark fv =
     (fv,
      [\<lparr>href = \<lparr>blob_content = JSON_stringify (App_output calculateGreenMark fv),
                 blob_type = ''application/json''\<rparr>,
        download = ''output.sbcc.json''\<rparr>])"

section \<open>Theorems\<close>

subsection \<open>The deduplicated listings\<close>

lemma foldl_Set_add:
  "foldl Set_add acc xs = acc @ filter (\<lambda>y. y \<notin> set acc) (first_occurrences xs)"
proof (induction xs arbitrary: acc)
  case Nil
  then show ?case by simp
next
  case (Cons x xs)
  show ?case
  proof (cases "x \<in> set acc")
    case True
    then have "filter (\<lambda>y. y \<notin> set acc) (filter (\<lambda>y. y \<noteq> x) (first_occurrences xs))
             = filter (\<lambda>y. y \<notin> set acc) (first_occurrences xs)"
      by (auto intro: filter_cong)
    with True Cons show ?thesis by (simp add: Set_add_def)
  next
    case False
    have "filter (\<lambda>y. y \<notin> set (acc @ [x])) (first_occurrences xs)
        = filter (\<lambda>y. y \<notin> set acc) (filter (\<lambda>y. y \<noteq> x) (first_occurrences xs))"
      by (auto intro: filter_cong)
    with False Cons [of "acc @ [x]"] show ?thesis by (simp add: Set_add_def)
  qed
qed

lemma unique_first_occurrences: "unique xs = first_occurrences xs"
  by (simp add: unique_def Array_from_def Set_new_def foldl_Set_add)

lemma set_first_occurrences: "set (first_occurrences xs) = set xs"
  by (induction xs) auto

lemma distinct_first_occurrences: "distinct (first_occurrences xs)"
  by (induction xs) auto

text \<open>
  The order, said without \<open>first_occurrences\<close>: the listing is the input with every later
  repetition of an element deleted (\<open>remdups\<close> of the library keeps the last occurrence of
  an element, so it is applied to the reversed input).
\<close>

lemma remdups_snoc: "remdups (ys @ [x]) = filter (\<lambda>y. y \<noteq> x) (remdups ys) @ [x]"
  by (induction ys) auto

lemma first_occurrences_remdups: "first_occurrences xs = rev (remdups (rev xs))"
  by (induction xs) (simp_all add: remdups_snoc rev_filter)

text \<open>
  C6. The component listing is the deduplicated union of the global and the
  country-specific component identifiers, the country listing the deduplicated union of
  the country identifiers of the country components and of the ports: every identifier
  of the inputs is listed, none twice, in the order of the first occurrences.
\<close>

theorem C6_listings_deduplicated_first_occurrence_order:
  "componentIds g c
     = first_occurrences (map component.componentId g @ map component.componentId c)
   \<and> componentIds g c
     = rev (remdups (rev (map component.componentId g @ map component.componentId c)))
   \<and> distinct (componentIds g c)
   \<and> set (componentIds g c) = component.componentId ` set g \<union> component.componentId ` set c
   \<and> countryIds c p
     = first_occurrences (map country_component.countryId c @ map port.countryId p)
   \<and> countryIds c p
     = rev (remdups (rev (map country_component.countryId c @ map port.countryId p)))
   \<and> distinct (countryIds c p)
   \<and> set (countryIds c p) = country_component.countryId ` set c \<union> port.countryId ` set p"
proof -
  let ?xs = "map component.componentId g @ map component.componentId c"
  let ?ys = "map country_component.countryId c @ map port.countryId p"
  have 1: "componentIds g c = first_occurrences ?xs"
    by (simp add: componentIds_def unique_first_occurrences)
  have 2: "countryIds c p = first_occurrences ?ys"
    by (simp add: countryIds_def unique_first_occurrences)
  have 3: "componentIds g c = rev (remdups (rev ?xs))"
    unfolding 1 by (rule first_occurrences_remdups)
  have 4: "countryIds c p = rev (remdups (rev ?ys))"
    unfolding 2 by (rule first_occurrences_remdups)
  have 5: "distinct (componentIds g c)" "distinct (countryIds c p)"
    unfolding 1 2 by (rule distinct_first_occurrences)+
  have 6: "set (componentIds g c) = component.componentId ` set g \<union> component.componentId ` set c"
    unfolding 1 by (simp add: set_first_occurrences)
  have 7: "set (countryIds c p) = country_component.countryId ` set c \<union> port.countryId ` set p"
    unfolding 2 by (simp add: set_first_occurrences)
  from 1 2 3 4 5 6 7 show ?thesis by blast
qed

theorem C6_listings_witness:
  "componentIds
     [\<lparr>component.componentId = ''Cement'', component.greenMarkCategory = Some ''Concrete''\<rparr>,
      \<lparr>component.componentId = ''Rebar'', component.greenMarkCategory = Some ''Steel''\<rparr>,
      \<lparr>component.componentId = ''Cement'', component.greenMarkCategory = None\<rparr>]
     [\<lparr>component.componentId = ''Rebar'', component.greenMarkCategory = Some ''Steel'',
       country_component.countryId = ''Malaysia''\<rparr>,
      \<lparr>component.componentId = ''Float glass'', component.greenMarkCategory = Some ''Glass'',
       country_component.countryId = ''China''\<rparr>,
      \<lparr>component.componentId = ''Rebar'', component.greenMarkCategory = None,
       country_component.countryId = ''China''\<rparr>]
   = [''Cement'', ''Rebar'', ''Float glass'']
   \<and> countryIds
     [\<lparr>component.componentId = ''Rebar'', component.greenMarkCategory = Some ''Steel'',
       country_component.countryId = ''Malaysia''\<rparr>,
      \<lparr>component.componentId = ''Float glass'', component.greenMarkCategory = Some ''Glass'',
       country_component.countryId = ''China''\<rparr>,
      \<lparr>component.componentId = ''Rebar'', component.greenMarkCategory = None,
       country_component.countryId = ''China''\<rparr>]
     [\<lparr>port.countryId = ''Singapore''\<rparr>, \<lparr>port.countryId = ''China''\<rparr>,
      \<lparr>port.countryId = ''Malaysia''\<rparr>]
   = [''Malaysia'', ''China'', ''Singapore'']"
  using C6_listings_deduplicated_first_occurrence_order
    [of "[\<lparr>component.componentId = ''Cement'', component.greenMarkCategory = Some ''Concrete''\<rparr>,
          \<lparr>component.componentId = ''Rebar'', component.greenMarkCategory = Some ''Steel''\<rparr>,
          \<lparr>component.componentId = ''Cement'', component.greenMarkCategory = None\<rparr>]"
        "[\<lparr>component.componentId = ''Rebar'', component.greenMarkCategory = Some ''Steel'',
           country_component.countryId = ''Malaysia''\<rparr>,
          \<lparr>component.componentId = ''Float glass'', component.greenMarkCategory = Some ''Glass'',
           country_component.countryId = ''China''\<rparr>,
          \<lparr>component.componentId = ''Rebar'', component.greenMarkCategory = None,
           country_component.countryId = ''China''\<rparr>]"
        "[\<lparr>port.countryId = ''Singapore''\<rparr>, \<lparr>port.countryId = ''China''\<rparr>,
          \<lparr>port.countryId = ''Malaysia''\<rparr>]"]
  by simp

subsection \<open>The overlaid category map\<close>

lemma foldl_assign_lookup:
  "k \<noteq> ''__proto__'' \<Longrightarrow>
   foldl (\<lambda>acc e. assign acc (component.componentId e) (component.greenMarkCategory e)) m es k
   = (if filter (\<lambda>e. component.componentId e = k) es = [] then m k
      else Some (component.greenMarkCategory
                   (last (filter (\<lambda>e. component.componentId e = k) es))))"
  by (induction es rule: rev_induct) (simp_all add: assign_def)

text \<open>No assignment creates the own property \<^verbatim>\<open>__proto__\<close>.\<close>

lemma foldl_assign_proto:
  "foldl (\<lambda>acc e. assign acc (component.componentId e) (component.greenMarkCategory e)) m es
     ''__proto__'' = m ''__proto__''"
  by (induction es rule: rev_induct) (simp_all add: assign_def)

lemma componentIdToGreenmarkMap_proto:
  "componentIdToGreenmarkMap g c ''__proto__'' = None"
  by (simp add: componentIdToGreenmarkMap_def foldl_assign_proto)

text \<open>
  So with \<^verbatim>\<open>__proto__\<close> among the identifiers of the tables, reading the object under it
  gives the prototype, and under an identifier that is in no table and names a property
  of the prototype, the inherited value.
\<close>

lemma lookup_category_inherited:
  "lookup_category (componentIdToGreenmarkMap g c) ''__proto__'' = JInherited ''__proto__''"
  "v \<in> set Object_prototype_keys \<Longrightarrow> componentIdToGreenmarkMap g c v = None \<Longrightarrow>
   lookup_category (componentIdToGreenmarkMap g c) v = JInherited v"
  by (simp_all add: lookup_category_def componentIdToGreenmarkMap_proto Object_prototype_keys_def)

lemma filter_map_truncate:
  "filter (\<lambda>e. component.componentId e = k) (map component.truncate es)
   = map component.truncate (filter (\<lambda>e. component.componentId e = k) es)"
  by (induction es) (auto simp: component.truncate_def)

lemma last_map_truncate_category:
  "es \<noteq> [] \<Longrightarrow> component.greenMarkCategory (last (map component.truncate es))
                 = component.greenMarkCategory (last es)"
  by (simp add: last_map component.truncate_def)

lemma componentIdToGreenmarkMap_lookup:
  "k \<noteq> ''__proto__'' \<Longrightarrow>
   componentIdToGreenmarkMap g c k
   = (if filter (\<lambda>e. component.componentId e = k) c \<noteq> []
      then Some (component.greenMarkCategory (last (filter (\<lambda>e. component.componentId e = k) c)))
      else if filter (\<lambda>e. component.componentId e = k) g \<noteq> []
      then Some (component.greenMarkCategory (last (filter (\<lambda>e. component.componentId e = k) g)))
      else None)"
  by (simp add: componentIdToGreenmarkMap_def foldl_assign_lookup filter_map_truncate
        last_map_truncate_category)

lemma filter_componentId_nonempty:
  "(filter (\<lambda>e. component.componentId e = k) es \<noteq> []) = (k \<in> component.componentId ` set es)"
  by (auto simp: filter_empty_conv)

text \<open>
  C4. For an identifier that occurs in the global table and in the country-specific
  table, the object holds the category of a country-specific entry, the last entry of
  the country-specific table with that identifier, whatever the global table says, and
  reading the object under the identifier gives that category. The identifier is not
  \<^verbatim>\<open>__proto__\<close>, the one key under which an assignment to a plain object stores nothing.
\<close>

theorem C4_country_specific_entry_wins:
  assumes "cid \<in> component.componentId ` set globalComponents"
    and "cid \<in> component.componentId ` set countryComponents"
    and "cid \<noteq> ''__proto__''"
  shows "componentIdToGreenmarkMap globalComponents countryComponents cid
         = Some (component.greenMarkCategory
                   (last (filter (\<lambda>e. component.componentId e = cid) countryComponents)))
       \<and> lookup_category (componentIdToGreenmarkMap globalComponents countryComponents) cid
         = (case component.greenMarkCategory
                   (last (filter (\<lambda>e. component.componentId e = cid) countryComponents)) of
              None \<Rightarrow> JUndefined
            | Some category \<Rightarrow> JStr category)"
  using assms(2,3)
  by (simp add: componentIdToGreenmarkMap_lookup filter_componentId_nonempty lookup_category_def
        split: option.splits)

theorem C4_country_specific_witness:
  "''Rebar'' \<in> component.componentId ` set 
        [\<lparr>component.componentId = ''Rebar'', component.greenMarkCategory = Some ''Concrete''\<rparr>,
      \<lparr>component.componentId = ''Sand'', component.greenMarkCategory = None\<rparr>]
   \<and> ''Rebar'' \<in> component.componentId ` set 
        [\<lparr>component.componentId = ''Rebar'', component.greenMarkCategory = Some ''Steel'',
       country_component.countryId = ''Malaysia''\<rparr>]
   \<and> ''Rebar'' \<noteq> ''__proto__''
   \<and> componentIdToGreenmarkMap 
        [\<lparr>component.componentId = ''Rebar'', component.greenMarkCategory = Some ''Concrete''\<rparr>,
      \<lparr>component.componentId = ''Sand'', component.greenMarkCategory = None\<rparr>] 
        [\<lparr>component.componentId = ''Rebar'', component.greenMarkCategory = Some ''Steel'',
       country_component.countryId = ''Malaysia''\<rparr>] ''Rebar'' = Some (Some ''Steel'')
   \<and> lookup_category (componentIdToGreenmarkMap 
        [\<lparr>component.componentId = ''Rebar'', component.greenMarkCategory = Some ''Concrete''\<rparr>,
      \<lparr>component.componentId = ''Sand'', component.greenMarkCategory = None\<rparr>] 
        [\<lparr>component.componentId = ''Rebar'', component.greenMarkCategory = Some ''Steel'',
       country_component.countryId = ''Malaysia''\<rparr>]) ''Rebar'' = JStr ''Steel''"
proof -
  let ?G = "
        [\<lparr>component.componentId = ''Rebar'', component.greenMarkCategory = Some ''Concrete''\<rparr>,
      \<lparr>component.componentId = ''Sand'', component.greenMarkCategory = None\<rparr>]"
  let ?C = "
        [\<lparr>component.componentId = ''Rebar'', component.greenMarkCategory = Some ''Steel'',
       country_component.countryId = ''Malaysia''\<rparr>]"
  have g: "''Rebar'' \<in> component.componentId ` set ?G" by simp
  have c: "''Rebar'' \<in> component.componentId ` set ?C" by simp
  have p: "''Rebar'' \<noteq> ''__proto__''" by simp
  from C4_country_specific_entry_wins [OF g c p] g c p show ?thesis by simp
qed

subsection \<open>The cascade\<close>

lemma componentId_onValueChange_eq:
  "componentId_onValueChange m index v fv
   = fv\<lparr>form_values.rows := (form_values.rows fv)
       [index := ((form_values.rows fv) ! index)
                   (componentId := JStr v, greenMarkCategory := lookup_category m v)]\<rparr>"
  by (cases "index < length (form_values.rows fv)")
     (simp_all add: componentId_onValueChange_def field_onChange_def form_setValue_def Let_def
        list_update_beyond not_less)

text \<open>Reading the object under a key that is no property name of \<^verbatim>\<open>Object.prototype\<close>.\<close>

lemma lookup_category_own:
  "v \<notin> set Object_prototype_keys \<Longrightarrow>
   lookup_category m v = (case m v of Some (Some category) \<Rightarrow> JStr category | _ \<Rightarrow> JUndefined)"
  by (simp add: lookup_category_def split: option.splits)



text \<open>
  C9. When the new component has no entry in the overlaid map, or an entry whose
  category is absent, the cascade stores \<^verbatim>\<open>undefined\<close> as the category of the row: a
  category chosen before is erased. The new component is not one of the property names
  of \<^verbatim>\<open>Object.prototype\<close>.
\<close>

theorem C9_unknown_component_erases_category:
  assumes "index < length (form_values.rows fv)"
    and "v \<notin> set Object_prototype_keys"
    and "componentIdToGreenmarkMap g c v = None \<or> componentIdToGreenmarkMap g c v = Some None"
  shows "get_path (RowField index greenMarkCategory)
           (componentId_onValueChange (componentIdToGreenmarkMap g c) index v fv)
         = JUndefined
       \<and> get_path (RowField index greenMarkCategory)
           (componentId_onValueChange (componentIdToGreenmarkMap g c) index v
              (field_onChange (RowField index greenMarkCategory) (JStr chosen) fv))
         = JUndefined"
  using assms(1,3) lookup_category_own [OF assms(2), of "componentIdToGreenmarkMap g c"]
  by (auto simp add: componentId_onValueChange_eq field_onChange_def)

theorem C9_unknown_component_witness:
  "0 < length (form_values.rows 
        (projr (defaultValues
        [\<lparr>component.componentId = ''Cement'', component.greenMarkCategory = Some ''Concrete''\<rparr>]
        [\<lparr>buildingType = ''Office'', reference_value.referenceValue = Fin 1000\<rparr>])))
   \<and> ''Timber'' \<notin> set Object_prototype_keys
   \<and> ''Sand'' \<notin> set Object_prototype_keys
   \<and> componentIdToGreenmarkMap 
        [\<lparr>component.componentId = ''Rebar'', component.greenMarkCategory = Some ''Concrete''\<rparr>,
      \<lparr>component.componentId = ''Sand'', component.greenMarkCategory = None\<rparr>] 
        [\<lparr>component.componentId = ''Rebar'', component.greenMarkCategory = Some ''Steel'',
       country_component.countryId = ''Malaysia''\<rparr>] ''Timber'' = None
   \<and> componentIdToGreenmarkMap 
        [\<lparr>component.componentId = ''Rebar'', component.greenMarkCategory = Some ''Concrete''\<rparr>,
      \<lparr>component.componentId = ''Sand'', component.greenMarkCategory = None\<rparr>] 
        [\<lparr>component.componentId = ''Rebar'', component.greenMarkCategory = Some ''Steel'',
       country_component.countryId = ''Malaysia''\<rparr>] ''Sand'' = Some None
   \<and> get_path (RowField 0 greenMarkCategory)
        (field_onChange (RowField 0 greenMarkCategory) (JStr ''Concrete'') 
        (projr (defaultValues
        [\<lparr>component.componentId = ''Cement'', component.greenMarkCategory = Some ''Concrete''\<rparr>]
        [\<lparr>buildingType = ''Office'', reference_value.referenceValue = Fin 1000\<rparr>])))
      = JStr ''Concrete''
   \<and> get_path (RowField 0 greenMarkCategory)
        (componentId_onValueChange (componentIdToGreenmarkMap 
        [\<lparr>component.componentId = ''Rebar'', component.greenMarkCategory = Some ''Concrete''\<rparr>,
      \<lparr>component.componentId = ''Sand'', component.greenMarkCategory = None\<rparr>] 
        [\<lparr>component.componentId = ''Rebar'', component.greenMarkCategory = Some ''Steel'',
       country_component.countryId = ''Malaysia''\<rparr>]) 0 ''Timber''
           (field_onChange (RowField 0 greenMarkCategory) (JStr ''Concrete'') 
        (projr (defaultValues
        [\<lparr>component.componentId = ''Cement'', component.greenMarkCategory = Some ''Concrete''\<rparr>]
        [\<lparr>buildingType = ''Office'', reference_value.referenceValue = Fin 1000\<rparr>]))))
      = JUndefined
   \<and> get_path (RowField 0 greenMarkCategory)
        (componentId_onValueChange (componentIdToGreenmarkMap 
        [\<lparr>component.componentId = ''Rebar'', component.greenMarkCategory = Some ''Concrete''\<rparr>,
      \<lparr>component.componentId = ''Sand'', component.greenMarkCategory = None\<rparr>] 
        [\<lparr>component.componentId = ''Rebar'', component.greenMarkCategory = Some ''Steel'',
       country_component.countryId = ''Malaysia''\<rparr>]) 0 ''Sand''
           (field_onChange (RowField 0 greenMarkCategory) (JStr ''Concrete'') 
        (projr (defaultValues
        [\<lparr>component.componentId = ''Cement'', component.greenMarkCategory = Some ''Concrete''\<rparr>]
        [\<lparr>buildingType = ''Office'', reference_value.referenceValue = Fin 1000\<rparr>]))))
      = JUndefined"
proof -
  let ?G = "
        [\<lparr>component.componentId = ''Rebar'', component.greenMarkCategory = Some ''Concrete''\<rparr>,
      \<lparr>component.componentId = ''Sand'', component.greenMarkCategory = None\<rparr>]"
  let ?C = "
        [\<lparr>component.componentId = ''Rebar'', component.greenMarkCategory = Some ''Steel'',
       country_component.countryId = ''Malaysia''\<rparr>]"
  let ?FV = "
        (projr (defaultValues
        [\<lparr>component.componentId = ''Cement'', component.greenMarkCategory = Some ''Concrete''\<rparr>]
        [\<lparr>buildingType = ''Office'', reference_value.referenceValue = Fin 1000\<rparr>]))"
  have h: "0 < length (form_values.rows ?FV)"
    by (simp add: defaultValues_def defaultInputRow_def)
  have kt: "''Timber'' \<notin> set Object_prototype_keys"
    by (simp add: Object_prototype_keys_def)
  have ks: "''Sand'' \<notin> set Object_prototype_keys"
    by (simp add: Object_prototype_keys_def)
  have t: "componentIdToGreenmarkMap ?G ?C ''Timber'' = None"
    by (simp add: componentIdToGreenmarkMap_def assign_def component.truncate_def)
  have s: "componentIdToGreenmarkMap ?G ?C ''Sand'' = Some None"
    by (simp add: componentIdToGreenmarkMap_def assign_def component.truncate_def)
  have o: "get_path (RowField 0 greenMarkCategory)
        (field_onChange (RowField 0 greenMarkCategory) (JStr ''Concrete'') ?FV)
      = JStr ''Concrete''"
    using h by (simp add: field_onChange_def)
  from t have t': "componentIdToGreenmarkMap ?G ?C ''Timber'' = None
      \<or> componentIdToGreenmarkMap ?G ?C ''Timber'' = Some None" ..
  from s have s': "componentIdToGreenmarkMap ?G ?C ''Sand'' = None
      \<or> componentIdToGreenmarkMap ?G ?C ''Sand'' = Some None" ..
  from C9_unknown_component_erases_category [OF h kt t', of "''Concrete''"]
    C9_unknown_component_erases_category [OF h ks s', of "''Concrete''"] h kt ks t s o
  show ?thesis by blast
qed

subsection \<open>Copying a row\<close>

text \<open>
  C5. The copy button of a row that is there appends one row, equal to that row, after
  the last row: the number of rows grows by one, the rows that were there stay as they
  were and in their order, and the rest of the form is untouched.
\<close>

theorem C5_copy_appends_equal_row:
  assumes "i < length (form_values.rows fv)"
  shows "form_values.rows (copy_onClick i fv) = form_values.rows fv @ [form_values.rows fv ! i]
       \<and> last (form_values.rows (copy_onClick i fv)) = form_values.rows fv ! i
       \<and> length (form_values.rows (copy_onClick i fv)) = length (form_values.rows fv) + 1
       \<and> take (length (form_values.rows fv)) (form_values.rows (copy_onClick i fv))
           = form_values.rows fv
       \<and> gfa (copy_onClick i fv) = gfa fv
       \<and> form_values.referenceValue (copy_onClick i fv) = form_values.referenceValue fv"
  by (simp add: copy_onClick_def append_def form_watch_def)

theorem C5_copy_witness:
  "0 < length (form_values.rows 
        (projr (defaultValues
        [\<lparr>component.componentId = ''Cement'', component.greenMarkCategory = Some ''Concrete''\<rparr>]
        [\<lparr>buildingType = ''Office'', reference_value.referenceValue = Fin 1000\<rparr>])))
   \<and> length (form_values.rows (copy_onClick 0 
        (projr (defaultValues
        [\<lparr>component.componentId = ''Cement'', component.greenMarkCategory = Some ''Concrete''\<rparr>]
        [\<lparr>buildingType = ''Office'', reference_value.referenceValue = Fin 1000\<rparr>])))) = 2
   \<and> last (form_values.rows (copy_onClick 0 
        (projr (defaultValues
        [\<lparr>component.componentId = ''Cement'', component.greenMarkCategory = Some ''Concrete''\<rparr>]
        [\<lparr>buildingType = ''Office'', reference_value.referenceValue = Fin 1000\<rparr>])))) = form_values.rows 
        (projr (defaultValues
        [\<lparr>component.componentId = ''Cement'', component.greenMarkCategory = Some ''Concrete''\<rparr>]
        [\<lparr>buildingType = ''Office'', reference_value.referenceValue = Fin 1000\<rparr>])) ! 0
   \<and> last (form_values.rows (copy_onClick 0 
        (projr (defaultValues
        [\<lparr>component.componentId = ''Cement'', component.greenMarkCategory = Some ''Concrete''\<rparr>]
        [\<lparr>buildingType = ''Office'', reference_value.referenceValue = Fin 1000\<rparr>])))) quantity = JNum (Fin 20)"
proof -
  let ?FV = "
        (projr (defaultValues
        [\<lparr>component.componentId = ''Cement'', component.greenMarkCategory = Some ''Concrete''\<rparr>]
        [\<lparr>buildingType = ''Office'', reference_value.referenceValue = Fin 1000\<rparr>]))"
  have h: "0 < length (form_values.rows ?FV)"
    by (simp add: defaultValues_def defaultInputRow_def)
  have n: "length (form_values.rows ?FV) = 1"
    by (simp add: defaultValues_def defaultInputRow_def)
  have q: "(form_values.rows ?FV ! 0) quantity = JNum (Fin 20)"
    by (simp add: defaultValues_def defaultInputRow_def)
  from C5_copy_appends_equal_row [OF h] h n q show ?thesis by simp
qed

subsection \<open>Validation of a candidate row\<close>

lemma zparse_Inl_nonempty: "zparse ver s v \<noteq> Inl []"
  by (induction s) (auto split: jsval.splits list.splits)

lemma filter_key_issues:
  "filter (\<lambda>i. fst i = k) (key_issues ver data ks)
   = (if fst ks = k then key_issues ver data ks else [])"
  by (auto simp: key_issues_def filter_empty_conv split: sum.splits)

lemma filter_concat_key_issues:
  assumes "distinct (map fst shape)" and "(k, s) \<in> set shape"
  shows "filter (\<lambda>i. fst i = k) (concat (map (key_issues ver data) shape))
         = key_issues ver data (k, s)"
  using assms
proof (induction shape)
  case Nil
  then show ?case by simp
next
  case (Cons ks shape)
  show ?case
  proof (cases "ks = (k, s)")
    case True
    with Cons.prems have "\<forall>ks' \<in> set shape. fst ks' \<noteq> k" by auto
    then have "filter (\<lambda>i. fst i = k) (concat (map (key_issues ver data) shape)) = []"
      by (induction shape) (auto simp: filter_key_issues)
    with True show ?thesis by (simp add: filter_key_issues)
  next
    case False
    with Cons.prems have "(k, s) \<in> set shape" and "fst ks \<noteq> k"
      by (auto simp: rev_image_eqI)
    with Cons show ?thesis by (simp add: filter_key_issues)
  qed
qed

lemma distinct_rowschema: "distinct (map fst rowschema)"
  by (simp add: rowschema_def)

lemma concat_issues_Nil:
  assumes "concat (map (key_issues ver data) shape) = []" and "(k, s) \<in> set shape"
  shows "\<exists>v. zparse ver s (data k) = Inr v"
proof -
  from assms have "key_issues ver data (k, s) = []" by auto
  then show ?thesis
    using zparse_Inl_nonempty [of ver s "data k"]
    by (cases "zparse ver s (data k)") (auto simp: key_issues_def)
qed

text \<open>The errors under a key are those of the key's own schema on the key's own value.\<close>

lemma field_errors_key:
  assumes "(k, s) \<in> set rowschema"
  shows "field_errors ver data k = (case zparse ver s (data k) of Inl codes \<Rightarrow> codes | Inr _ \<Rightarrow> [])"
proof (cases "concat (map (key_issues ver data) rowschema)")
  case Nil
  with assms obtain v where "zparse ver s (data k) = Inr v"
    using concat_issues_Nil by blast
  then show ?thesis
    unfolding field_errors_def rowschema_safeParse_def zobject_parse_def Nil by simp
next
  case (Cons i issues)
  have "field_errors ver data k
      = map snd (filter (\<lambda>i. fst i = k) (concat (map (key_issues ver data) rowschema)))"
    unfolding field_errors_def rowschema_safeParse_def zobject_parse_def
    unfolding Cons by simp
  also have "\<dots> = map snd (key_issues ver data (k, s))"
    using filter_concat_key_issues [OF distinct_rowschema assms] by simp
  also have "\<dots> = (case zparse ver s (data k) of Inl codes \<Rightarrow> codes | Inr _ \<Rightarrow> [])"
    by (simp add: key_issues_def comp_def split: sum.splits)
  finally show ?thesis .
qed

text \<open>A successful parse returns, under every key, the value its schema returned.\<close>

lemma safeParse_value:
  assumes "rowschema_safeParse ver data = Inr r" and "(k, s) \<in> set rowschema"
  shows "zparse ver s (data k) = Inr (r k)"
proof -
  from assms(1) have nil: "concat (map (key_issues ver data) rowschema) = []"
    and r: "r = key_value ver rowschema data"
    by (auto simp: rowschema_safeParse_def zobject_parse_def split: list.splits)
  from concat_issues_Nil [OF nil assms(2)] obtain v where v: "zparse ver s (data k) = Inr v"
    by blast
  from assms(2) distinct_rowschema have "map_of rowschema k = Some s" by simp
  with v r show ?thesis by (simp add: key_value_def)
qed

lemma safeParse_Inr_iff:
  "(\<exists>r. rowschema_safeParse ver data = Inr r)
   = (\<forall>(k, s) \<in> set rowschema. \<exists>v. zparse ver s (data k) = Inr v)"
proof
  assume "\<exists>r. rowschema_safeParse ver data = Inr r"
  then have "concat (map (key_issues ver data) rowschema) = []"
    by (auto simp: rowschema_safeParse_def zobject_parse_def split: list.splits)
  then show "\<forall>(k, s) \<in> set rowschema. \<exists>v. zparse ver s (data k) = Inr v"
    using concat_issues_Nil by blast
next
  assume "\<forall>(k, s) \<in> set rowschema. \<exists>v. zparse ver s (data k) = Inr v"
  then have "\<forall>ks \<in> set rowschema. key_issues ver data ks = []"
    by (auto simp: key_issues_def)
  then have nil: "concat (map (key_issues ver data) rowschema) = []" by simp
  show "\<exists>r. rowschema_safeParse ver data = Inr r"
    unfolding rowschema_safeParse_def zobject_parse_def nil by simp
qed

text \<open>The coercing number schema with the check \<open>min(0)\<close>, and the one without a check.\<close>

lemma zparse_coerce_min0:
  "zparse ver (ZodNumber True [Min 0]) v =
     (case Number v of
        NaN \<Rightarrow> Inl [invalid_type]
      | Fin q \<Rightarrow> if q < 0 then Inl [too_small] else Inr (JNum (Fin q))
      | PosInf \<Rightarrow> if ver = Zod4 then Inl [invalid_type] else Inr (JNum PosInf)
      | NegInf \<Rightarrow> if ver = Zod4 then Inl [invalid_type] else Inl [too_small])"
  by (cases "Number v") auto

lemma zparse_coerce_optional:
  "zparse ver (ZodOptional (ZodNumber True [])) v =
     (if v = JUndefined then Inr JUndefined
      else case Number v of
        NaN \<Rightarrow> Inl [invalid_type]
      | Fin q \<Rightarrow> Inr (JNum (Fin q))
      | PosInf \<Rightarrow> if ver = Zod4 then Inl [invalid_type] else Inr (JNum PosInf)
      | NegInf \<Rightarrow> if ver = Zod4 then Inl [invalid_type] else Inr (JNum NegInf))"
  by (cases "Number v") auto

lemma numeric_keys_schema:
  "k \<in> {quantity, internationalRoadDistance, localRoadDistance} \<Longrightarrow>
   (k, ZodNumber True [Min 0]) \<in> set rowschema"
  by (auto simp: rowschema_def)

lemma manualMarineDistance_schema:
  "(manualMarineDistance, ZodOptional (ZodNumber True [])) \<in> set rowschema"
  by (simp add: rowschema_def)

lemma field_errors_numeric:
  assumes "k \<in> {quantity, internationalRoadDistance, localRoadDistance}"
  shows "field_errors ver data k =
     (case Number (data k) of
        NaN \<Rightarrow> [invalid_type]
      | Fin q \<Rightarrow> if q < 0 then [too_small] else []
      | PosInf \<Rightarrow> if ver = Zod4 then [invalid_type] else []
      | NegInf \<Rightarrow> if ver = Zod4 then [invalid_type] else [too_small])"
  unfolding field_errors_key [OF numeric_keys_schema [OF assms]] zparse_coerce_min0
  by (simp split: jsnum.splits)

lemma field_errors_manualMarineDistance:
  "field_errors ver data manualMarineDistance =
     (if data manualMarineDistance = JUndefined then []
      else case Number (data manualMarineDistance) of
        NaN \<Rightarrow> [invalid_type]
      | Fin q \<Rightarrow> []
      | PosInf \<Rightarrow> if ver = Zod4 then [invalid_type] else []
      | NegInf \<Rightarrow> if ver = Zod4 then [invalid_type] else [])"
  unfolding field_errors_key [OF manualMarineDistance_schema] zparse_coerce_optional
  by (simp split: jsnum.splits)

subsection \<open>The number of a decimal string\<close>

lemma pow2_pos: "0 < pow2 e"
  by (simp add: pow2_def)

lemma round_half_even_nonneg: "0 \<le> x \<Longrightarrow> 0 \<le> round_half_even x"
  by (auto simp: round_half_even_def Let_def)

lemma RoundMVResult_nonneg:
  assumes "0 \<le> n"
  shows "RoundMVResult n = PosInf \<or> (\<exists>q. RoundMVResult n = Fin q \<and> 0 \<le> q)"
proof (cases "n = 0")
  case True
  then show ?thesis by (simp add: RoundMVResult_def)
next
  case False
  define e where "e = max (floor_log2 \<bar>n\<bar>) (- 1022)"
  define r where "r = of_int (round_half_even (\<bar>n\<bar> / pow2 (e - 52))) * pow2 (e - 52)"
  have "0 \<le> \<bar>n\<bar> / pow2 (e - 52)" using pow2_pos [of "e - 52"] by simp
  then have "0 \<le> round_half_even (\<bar>n\<bar> / pow2 (e - 52))" by (rule round_half_even_nonneg)
  then have r: "0 \<le> r"
    unfolding r_def using pow2_pos [of "e - 52"] by simp
  from assms have nn: "\<not> n < 0" by simp
  have "RoundMVResult n
      = (if e < 1023 then Fin r else if 2 ^ 1024 \<le> r then PosInf else Fin r)"
    unfolding RoundMVResult_def Let_def e_def [symmetric] r_def [symmetric]
    using False nn by (simp only: if_False)
  with r show ?thesis by (auto split: if_splits)
qed

lemma is_digit_hex_digit:
  assumes "is_digit c"
  shows "\<exists>d. hex_digit c = Some d \<and> 0 \<le> d \<and> d < 10"
proof -
  have e: "(of_char c :: int) = int (of_char c)" by (simp add: of_nat_of_char)
  from assms have "48 \<le> (of_char c :: nat)" and "(of_char c :: nat) \<le> 57"
    by (simp_all add: is_digit_def)
  then have "48 \<le> int (of_char c)" and "int (of_char c) \<le> 57" by linarith+
  then show ?thesis unfolding hex_digit_def Let_def e by auto
qed

lemma foldl_digits_nonneg:
  "list_all is_digit ds \<Longrightarrow> 0 \<le> a \<Longrightarrow>
   0 \<le> foldl (\<lambda>a c. 10 * a + the (hex_digit c)) (a :: int) ds"
proof (induction ds arbitrary: a)
  case Nil
  then show ?case by simp
next
  case (Cons c ds)
  from Cons.prems obtain d where "hex_digit c = Some d" "0 \<le> d"
    using is_digit_hex_digit [of c] by auto
  with Cons show ?case by simp
qed

lemma digits_value_digits:
  assumes "list_all is_digit ds"
  shows "\<exists>v. digits_value 10 (CHR ''0'' # ds) = Some v \<and> 0 \<le> v"
proof -
  have z: "is_digit CHR ''0''" by (simp add: is_digit_def)
  with assms have all: "list_all is_digit (CHR ''0'' # ds)" by simp
  have "list_all (\<lambda>c. case hex_digit c of None \<Rightarrow> False | Some d \<Rightarrow> d < 10) (CHR ''0'' # ds)"
    using all is_digit_hex_digit unfolding list_all_iff by fastforce
  moreover have "0 \<le> foldl (\<lambda>a c. 10 * a + the (hex_digit c)) (0 :: int) (CHR ''0'' # ds)"
    using foldl_digits_nonneg [OF all, of 0] by simp
  ultimately show ?thesis by (simp add: digits_value_def del: foldl_Cons)
qed

lemma decimal_value_nonneg:
  assumes "list_all is_digit ip" and "list_all is_digit fp"
  shows "0 \<le> decimal_value ip fp"
proof -
  from digits_value_digits [OF assms(1)] obtain a
    where a: "digits_value 10 (CHR ''0'' # ip) = Some a" "0 \<le> a" by blast
  from digits_value_digits [OF assms(2)] obtain b
    where b: "digits_value 10 (CHR ''0'' # fp) = Some b" "0 \<le> b" by blast
  from a b show ?thesis by (simp add: decimal_value_def)
qed


lemma strip_stop: "s = [] \<or> leading_white_space ws s = 0 \<Longrightarrow> strip ws s = s"
  by (subst strip.simps) simp

lemma plain_char_code:
  "is_digit c \<or> c = CHR ''.'' \<Longrightarrow> 46 \<le> (of_char c :: nat) \<and> (of_char c :: nat) \<le> 57"
  by (auto simp: is_digit_def)

lemma leading_white_space_plain:
  assumes "is_digit c \<or> c = CHR ''.''"
  shows "leading_white_space StrWhiteSpaceChar (c # s) = 0"
    and "leading_white_space (map rev StrWhiteSpaceChar) (c # s) = 0"
  using plain_char_code [OF assms]
  by (auto simp: leading_white_space_def StrWhiteSpaceChar_def)

lemma trim_plain:
  assumes "s \<noteq> []" and "is_digit (hd s) \<or> hd s = CHR ''.''"
    and "is_digit (last s) \<or> last s = CHR ''.''"
  shows "trim s = s"
proof -
  from assms(1) obtain c t where s: "s = c # t" by (cases s) auto
  with assms(2) have 1: "strip StrWhiteSpaceChar s = s"
    by (simp add: strip_stop leading_white_space_plain)
  from assms(1) have rs: "rev s = last s # rev (butlast s)"
    by (metis append_butlast_last_id rev.simps(2) rev_append rev_rev_ident append_Nil)
  have "strip (map rev StrWhiteSpaceChar) (last s # rev (butlast s)) = last s # rev (butlast s)"
    using assms(3) by (simp add: strip_stop leading_white_space_plain)
  then have 2: "strip (map rev StrWhiteSpaceChar) (rev s) = rev s"
    by (simp only: rs)
  show ?thesis by (simp add: trim_def 1 2)
qed

lemma decimal_string_parts:
  assumes "is_decimal_string s"
  obtains ip fp where "ip \<noteq> []" "list_all is_digit ip" "list_all is_digit fp"
    "takeWhile is_digit s = ip"
    "dropWhile is_digit s = [] \<and> fp = [] \<or> dropWhile is_digit s = CHR ''.'' # fp"
proof -
  let ?ip = "takeWhile is_digit s"
  have ip: "?ip \<noteq> []" "list_all is_digit ?ip"
    using assms by (auto simp: is_decimal_string_def list_all_iff dest: set_takeWhileD)
  show ?thesis
  proof (cases "dropWhile is_digit s")
    case Nil
    with ip that [of ?ip "[]"] show ?thesis by simp
  next
    case (Cons c t)
    with assms have "c = CHR ''.''" "list_all is_digit t"
      by (simp_all add: is_decimal_string_def)
    with Cons ip that [of ?ip t] show ?thesis by simp
  qed
qed

lemma not_digit_chars:
  "is_digit c \<or> c = CHR ''.'' \<Longrightarrow>
   c \<noteq> CHR ''+'' \<and> c \<noteq> CHR ''-'' \<and> c \<noteq> CHR ''x'' \<and> c \<noteq> CHR ''X'' \<and> c \<noteq> CHR ''o''
   \<and> c \<noteq> CHR ''O'' \<and> c \<noteq> CHR ''b'' \<and> c \<noteq> CHR ''B'' \<and> c \<noteq> CHR ''I''"
  by (auto simp: is_digit_def)

lemma StringToNumber_decimal_string:
  assumes "is_decimal_string s"
  shows "\<exists>ip fp. list_all is_digit ip \<and> list_all is_digit fp
           \<and> StringToNumber s = RoundMVResult (decimal_value ip fp)"
proof -
  from assms obtain ip fp where ip: "ip \<noteq> []" "list_all is_digit ip"
    and fp: "list_all is_digit fp"
    and tw: "takeWhile is_digit s = ip"
    and dw: "dropWhile is_digit s = [] \<and> fp = [] \<or> dropWhile is_digit s = CHR ''.'' # fp"
    by (rule decimal_string_parts)
  have s: "s = ip @ dropWhile is_digit s"
    using tw takeWhile_dropWhile_id [of is_digit s] by simp
  have plain: "\<forall>c \<in> set s. is_digit c \<or> c = CHR ''.''"
  proof
    fix c assume "c \<in> set s"
    then have c: "c \<in> set ip \<or> c \<in> set (dropWhile is_digit s)"
      using s by (metis Un_iff set_append)
    from dw show "is_digit c \<or> c = CHR ''.''"
    proof
      assume "dropWhile is_digit s = [] \<and> fp = []"
      with c have "c \<in> set ip" by simp
      with ip(2) show ?thesis by (simp add: list_all_iff)
    next
      assume "dropWhile is_digit s = CHR ''.'' # fp"
      with c have "c \<in> set ip \<or> c = CHR ''.'' \<or> c \<in> set fp" by auto
      with ip(2) fp show ?thesis by (auto simp: list_all_iff)
    qed
  qed
  from ip(1) s have ne: "s \<noteq> []" by auto
  then have hd: "is_digit (hd s) \<or> hd s = CHR ''.''" and last: "is_digit (last s) \<or> last s = CHR ''.''"
    using plain by simp_all
  have trim: "trim s = s" using ne hd last by (rule trim_plain)
  have nd: "NonDecimalIntegerLiteral s = None"
  proof (cases s)
    case Nil
    then show ?thesis by (simp add: NonDecimalIntegerLiteral_def)
  next
    case (Cons z t)
    show ?thesis
    proof (cases t)
      case Nil
      with Cons show ?thesis by (simp add: NonDecimalIntegerLiteral_def)
    next
      case (Cons p ds)
      with \<open>s = z # t\<close> plain have "is_digit p \<or> p = CHR ''.''" by simp
      from not_digit_chars [OF this] Cons \<open>s = z # t\<close> show ?thesis
        by (simp add: NonDecimalIntegerLiteral_def)
    qed
  qed
  from ne obtain c t where ct: "s = c # t" by (cases s) auto
  with hd have c: "is_digit c \<or> c = CHR ''.''" by simp
  have sd: "StrDecimalLiteral s = StrUnsignedDecimalLiteral s"
    using not_digit_chars [OF c] ct by (simp add: StrDecimalLiteral_def)
  have inf: "s \<noteq> ''Infinity''"
    using not_digit_chars [OF c] ct by auto
  have fp': "takeWhile is_digit fp = fp" "dropWhile is_digit fp = []"
    using fp by (simp_all add: list_all_iff)
  have "StrUnsignedDecimalLiteral s = Some (RoundMVResult (decimal_value ip fp))"
    using dw
  proof
    assume "dropWhile is_digit s = [] \<and> fp = []"
    then have d: "dropWhile is_digit s = []" and f: "fp = []" by simp_all
    show ?thesis
      unfolding StrUnsignedDecimalLiteral_def Let_def tw d f
      using inf ip(1) by (simp add: ExponentPart_def scale10_def)
  next
    assume d: "dropWhile is_digit s = CHR ''.'' # fp"
    show ?thesis
      unfolding StrUnsignedDecimalLiteral_def Let_def tw d
      using inf ip(1) by (simp add: fp' ExponentPart_def scale10_def)
  qed
  with trim ne nd sd have "StringToNumber s = RoundMVResult (decimal_value ip fp)"
    by (simp add: StringToNumber_def Let_def)
  with ip(2) fp show ?thesis by blast
qed

lemma Number_decimal_string:
  assumes "is_decimal_string s"
  shows "Number (JStr s) = PosInf \<or> (\<exists>q. Number (JStr s) = Fin q \<and> 0 \<le> q)"
proof -
  from StringToNumber_decimal_string [OF assms] obtain ip fp
    where "list_all is_digit ip" "list_all is_digit fp"
      and n: "StringToNumber s = RoundMVResult (decimal_value ip fp)" by blast
  then have "0 \<le> decimal_value ip fp" by (simp add: decimal_value_nonneg)
  from RoundMVResult_nonneg [OF this] n show ?thesis by simp
qed

subsection \<open>The exponent and the infinity in the rounding\<close>

lemma pow2_powi: "pow2 e = 2 powi e"
  by (simp add: pow2_def power_int_def inverse_eq_divide power_one_over)

lemma floor_log2_upper:
  assumes "0 < a"
  shows "a < pow2 (floor_log2 a + 1)"
proof (cases "1 \<le> a")
  case True
  let ?x = "\<lfloor>a\<rfloor>"
  from True have x: "0 < ?x" by simp
  from bitlen_bounds [OF x] have "?x < 2 ^ nat (bitlen ?x)" by simp
  then have "?x + 1 \<le> 2 ^ nat (bitlen ?x)" by simp
  then have "(of_int (?x + 1) :: rat) \<le> of_int (2 ^ nat (bitlen ?x))"
    by (simp only: of_int_le_iff)
  moreover have "a < of_int (?x + 1)" by linarith
  ultimately have "a < 2 ^ nat (bitlen ?x)" by simp
  moreover have "0 \<le> bitlen ?x" by (rule bitlen_nonneg)
  ultimately show ?thesis using True by (simp add: floor_log2_def pow2_def)
next
  case False
  let ?m = "\<lceil>1 / a\<rceil> - 1"
  from False assms have "1 < 1 / a" by simp
  then have m: "0 < ?m" by linarith
  from bitlen_bounds [OF m] have "2 ^ nat (bitlen ?m - 1) \<le> ?m" by simp
  then have "(of_int (2 ^ nat (bitlen ?m - 1)) :: rat) \<le> of_int ?m"
    by (simp only: of_int_le_iff)
  moreover have "of_int ?m < 1 / a" by linarith
  ultimately have "2 ^ nat (bitlen ?m - 1) < 1 / a" by simp
  with assms have lt: "a < 1 / 2 ^ nat (bitlen ?m - 1)"
    by (simp add: field_simps)
  have b: "1 \<le> bitlen ?m"
  proof (rule ccontr)
    assume "\<not> 1 \<le> bitlen ?m"
    then have z: "nat (bitlen ?m) = 0" by simp
    from bitlen_bounds [OF m] have "?m < 2 ^ nat (bitlen ?m)" ..
    then have "?m < 1" by (simp only: z power_0)
    with m show False by linarith
  qed
  have "pow2 (- bitlen ?m + 1) = 1 / 2 ^ nat (bitlen ?m - 1)"
  proof (cases "bitlen ?m = 1")
    case True
    then show ?thesis by (simp add: pow2_def)
  next
    case False
    with b have "\<not> 0 \<le> - bitlen ?m + 1" and "- (- bitlen ?m + 1) = bitlen ?m - 1" by simp_all
    then show ?thesis by (simp only: pow2_def if_False)
  qed
  with lt False show ?thesis by (simp add: floor_log2_def)
qed

lemma floor_log2_lower:
  assumes "0 < a"
  shows "pow2 (floor_log2 a) \<le> a"
proof (cases "1 \<le> a")
  case True
  let ?x = "\<lfloor>a\<rfloor>"
  from True have x: "0 < ?x" by simp
  have b: "1 \<le> bitlen ?x"
  proof (rule ccontr)
    assume "\<not> 1 \<le> bitlen ?x"
    then have z: "nat (bitlen ?x) = 0" by simp
    from bitlen_bounds [OF x] have "?x < 2 ^ nat (bitlen ?x)" ..
    then have "?x < 1" by (simp only: z power_0)
    with x show False by linarith
  qed
  from bitlen_bounds [OF x] have "2 ^ nat (bitlen ?x - 1) \<le> ?x" ..
  then have "(of_int (2 ^ nat (bitlen ?x - 1)) :: rat) \<le> of_int ?x"
    by (simp only: of_int_le_iff)
  also have "of_int ?x \<le> a" by simp
  finally have "2 ^ nat (bitlen ?x - 1) \<le> a" by simp
  with b True show ?thesis by (simp add: floor_log2_def pow2_def)
next
  case False
  let ?m = "\<lceil>1 / a\<rceil> - 1"
  from False assms have "1 < 1 / a" by simp
  then have m: "0 < ?m" by linarith
  from bitlen_bounds [OF m] have "?m < 2 ^ nat (bitlen ?m)" ..
  then have "?m + 1 \<le> 2 ^ nat (bitlen ?m)" by simp
  then have le': "(of_int (?m + 1) :: rat) \<le> of_int (2 ^ nat (bitlen ?m))"
    by (simp only: of_int_le_iff)
  have "1 / a \<le> of_int (?m + 1)" by simp
  also note le'
  finally have "1 / a \<le> 2 ^ nat (bitlen ?m)" by simp
  with assms have le: "1 / 2 ^ nat (bitlen ?m) \<le> a"
    by (simp add: field_simps)
  have "pow2 (- bitlen ?m) = 1 / 2 ^ nat (bitlen ?m)"
  proof (cases "bitlen ?m = 0")
    case True
    then show ?thesis by (simp add: pow2_def)
  next
    case False
    with bitlen_nonneg [of ?m] have "\<not> 0 \<le> - bitlen ?m" by simp
    then show ?thesis by (simp only: pow2_def if_False minus_minus)
  qed
  with le False show ?thesis by (simp add: floor_log2_def)
qed

lemma round_half_even_le: "round_half_even x \<le> \<lfloor>x\<rfloor> + 1"
  by (simp add: round_half_even_def Let_def)

text \<open>
  Below the exponent 1023 no value rounds to \<open>pow2 1024\<close>: the test for the infinity in
  \<open>RoundMVResult\<close> is the comparison of the rounded value with \<open>pow2 1024\<close>.
\<close>

lemma RoundMVResult_overflow:
  "RoundMVResult n =
     (if n = 0 then Fin 0
      else
        let a = \<bar>n\<bar>;
            e = max (floor_log2 a) (- 1022);
            ulp = pow2 (e - 52);
            r = of_int (round_half_even (a / ulp)) * ulp
        in if 2 ^ 1024 \<le> r then (if n < 0 then NegInf else PosInf)
           else Fin (if n < 0 then - r else r))"
proof (cases "n = 0")
  case True
  then show ?thesis by (simp add: RoundMVResult_def)
next
  case False
  define e where "e = max (floor_log2 \<bar>n\<bar>) (- 1022)"
  define r where "r = of_int (round_half_even (\<bar>n\<bar> / pow2 (e - 52))) * pow2 (e - 52)"
  have small: "r < 2 ^ 1024" if "e < 1023"
  proof -
    from False have "\<bar>n\<bar> < pow2 (floor_log2 \<bar>n\<bar> + 1)" by (simp add: floor_log2_upper)
    also have "\<dots> \<le> pow2 (e + 1)"
      unfolding pow2_powi e_def by (rule power_int_increasing) simp_all
    finally have "\<bar>n\<bar> / pow2 (e - 52) < pow2 (e + 1) / pow2 (e - 52)"
      using pow2_pos [of "e - 52"] by (simp add: divide_strict_right_mono)
    also have "pow2 (e + 1) / pow2 (e - 52) = 2 ^ 53"
      unfolding pow2_powi by (simp add: power_int_diff [symmetric])
    finally have x: "\<bar>n\<bar> / pow2 (e - 52) < 2 ^ 53" .
    have "(of_int \<lfloor>\<bar>n\<bar> / pow2 (e - 52)\<rfloor> :: rat) \<le> \<bar>n\<bar> / pow2 (e - 52)" by simp
    with x have "(of_int \<lfloor>\<bar>n\<bar> / pow2 (e - 52)\<rfloor> :: rat) < of_int (2 ^ 53)" by simp
    then have "\<lfloor>\<bar>n\<bar> / pow2 (e - 52)\<rfloor> < 2 ^ 53" by (simp only: of_int_less_iff)
    with round_half_even_le [of "\<bar>n\<bar> / pow2 (e - 52)"]
    have "round_half_even (\<bar>n\<bar> / pow2 (e - 52)) \<le> 2 ^ 53" by linarith
    then have "(of_int (round_half_even (\<bar>n\<bar> / pow2 (e - 52))) :: rat) \<le> of_int (2 ^ 53)"
      by (simp only: of_int_le_iff)
    then have "r \<le> 2 ^ 53 * pow2 (e - 52)"
      unfolding r_def using pow2_pos [of "e - 52"] by (simp add: mult_right_mono)
    also have "2 ^ 53 * pow2 (e - 52) = pow2 (e + 1)"
      unfolding pow2_powi
      using power_int_add [of "2 :: rat" 53 "e - 52"] by (simp add: add.commute)
    also have "\<dots> \<le> pow2 1023"
      unfolding pow2_powi using that by (intro power_int_increasing) simp_all
    also have "\<dots> < 2 ^ 1024" by (simp add: pow2_def)
    finally show ?thesis .
  qed
  have "RoundMVResult n
      = (if e < 1023 then Fin (if n < 0 then - r else r)
         else if 2 ^ 1024 \<le> r then (if n < 0 then NegInf else PosInf)
         else Fin (if n < 0 then - r else r))"
    unfolding RoundMVResult_def Let_def e_def [symmetric] r_def [symmetric]
    using False by (simp only: if_False)
  also have "\<dots> = (if 2 ^ 1024 \<le> r then (if n < 0 then NegInf else PosInf)
         else Fin (if n < 0 then - r else r))"
    using small by (cases "e < 1023") (simp_all add: not_le)
  finally show ?thesis
    unfolding Let_def e_def [symmetric] r_def [symmetric]
    using False by (simp only: if_False)
qed

subsection \<open>The numeric fields\<close>

text \<open>
  C2 fails as it is stated. In the row below the quantity is the empty string, which is
  no number, and the manual marine distance is \<open>-5\<close>: the schema reports no issue under
  either key and the parse returns the quantity 0 and the distance \<open>-5\<close>, with either
  version of the library.
\<close>

theorem C2_counterexample:
  "field_errors Zod3 (
        (projr (defaultInputRow
        [\<lparr>component.componentId = ''Cement'', component.greenMarkCategory = Some ''Concrete''\<rparr>]))(quantity := JStr '''', manualMarineDistance := JStr ''-5'')) quantity = []
   \<and> field_errors Zod3 (
        (projr (defaultInputRow
        [\<lparr>component.componentId = ''Cement'', component.greenMarkCategory = Some ''Concrete''\<rparr>]))(quantity := JStr '''', manualMarineDistance := JStr ''-5''))
        manualMarineDistance = []
   \<and> (case rowschema_safeParse Zod3
              (
        (projr (defaultInputRow
        [\<lparr>component.componentId = ''Cement'', component.greenMarkCategory = Some ''Concrete''\<rparr>]))(quantity := JStr '''', manualMarineDistance := JStr ''-5'')) of
        Inl issues \<Rightarrow> False
      | Inr r \<Rightarrow> r quantity = JNum (Fin 0) \<and> r manualMarineDistance = JNum (Fin (- 5)))
   \<and> (case rowschema_safeParse Zod4
              (
        (projr (defaultInputRow
        [\<lparr>component.componentId = ''Cement'', component.greenMarkCategory = Some ''Concrete''\<rparr>]))(quantity := JStr '''', manualMarineDistance := JStr ''-5'')) of
        Inl issues \<Rightarrow> False
      | Inr r \<Rightarrow> r quantity = JNum (Fin 0) \<and> r manualMarineDistance = JNum (Fin (- 5)))"
  by code_simp

text \<open>
  C2, amended. Under \<open>quantity\<close>, \<open>internationalRoadDistance\<close> and \<open>localRoadDistance\<close> the
  schema reports no issue exactly when \<^verbatim>\<open>Number(input)\<close> is a number that is at least 0
  (version 4 of the library refuses the infinity), and a successful parse returns that
  number. So every decimal string is accepted (unless it is so long that it reads as
  the infinity, under version 4) and so is every non-negative integer; a negative value
  gets the issue \<^verbatim>\<open>too_small\<close> and an input that coerces to NaN the issue
  \<^verbatim>\<open>invalid_type\<close> under the key; and an input that is no numeral but coerces to a number,
  such as the empty string, is accepted. Under \<open>manualMarineDistance\<close> an absent value is
  accepted, an input that coerces to NaN gets an issue, and an input that coerces to a
  number that is at least 0 is accepted.
\<close>

theorem C2_numeric_fields_accept_nonnegative_coercions:
  "(k \<in> {quantity, internationalRoadDistance, localRoadDistance} \<longrightarrow>
      (field_errors ver data k = []) =
        ((\<exists>q. Number (data k) = Fin q \<and> 0 \<le> q) \<or> (ver = Zod3 \<and> Number (data k) = PosInf)))
   \<and> (k \<in> {quantity, internationalRoadDistance, localRoadDistance} \<and> is_jsval (data k) \<longrightarrow>
      (\<forall>r. rowschema_safeParse ver data = Inr r \<longrightarrow> r k = JNum (Number (data k))))
   \<and> (k \<in> {quantity, internationalRoadDistance, localRoadDistance}
        \<and> data k = JStr s \<and> is_decimal_string s \<longrightarrow>
      field_errors ver data k = [] \<or> (ver = Zod4 \<and> Number (data k) = PosInf))
   \<and> (k \<in> {quantity, internationalRoadDistance, localRoadDistance}
        \<and> data k = JNum (Fin (of_nat n)) \<longrightarrow>
      field_errors ver data k = [])
   \<and> (k \<in> {quantity, internationalRoadDistance, localRoadDistance}
        \<and> Number (data k) = Fin q \<and> q < 0 \<longrightarrow>
      field_errors ver data k = [too_small])
   \<and> (k \<in> {quantity, internationalRoadDistance, localRoadDistance}
        \<and> Number (data k) = NaN \<longrightarrow>
      field_errors ver data k = [invalid_type])
   \<and> (data manualMarineDistance = JUndefined \<longrightarrow> field_errors ver data manualMarineDistance = [])
   \<and> (data manualMarineDistance \<noteq> JUndefined \<and> Number (data manualMarineDistance) = NaN \<longrightarrow>
      field_errors ver data manualMarineDistance = [invalid_type])
   \<and> ((\<exists>q. Number (data manualMarineDistance) = Fin q \<and> 0 \<le> q) \<longrightarrow>
      field_errors ver data manualMarineDistance = [])"
proof -
  let ?N = "{quantity, internationalRoadDistance, localRoadDistance}"
  have 1: "(field_errors ver data k = []) =
        ((\<exists>q. Number (data k) = Fin q \<and> 0 \<le> q) \<or> (ver = Zod3 \<and> Number (data k) = PosInf))"
    if "k \<in> ?N"
    unfolding field_errors_numeric [OF that]
    by (cases ver; cases "Number (data k)") auto
  have 2: "r k = JNum (Number (data k))"
    if "k \<in> ?N \<and> is_jsval (data k)" and "rowschema_safeParse ver data = Inr r" for r
  proof -
    from that(1) have k: "k \<in> ?N" ..
    show ?thesis
      using safeParse_value [OF that(2) numeric_keys_schema [OF k]]
      unfolding zparse_coerce_min0
      by (cases "Number (data k)") (auto split: if_splits)
  qed
  have 3: "field_errors ver data k = [] \<or> (ver = Zod4 \<and> Number (data k) = PosInf)"
    if "k \<in> ?N \<and> data k = JStr s \<and> is_decimal_string s"
  proof -
    from that have k: "k \<in> ?N" and d: "data k = JStr s" and s: "is_decimal_string s"
      by blast+
    from Number_decimal_string [OF s] d
    have "Number (data k) = PosInf \<or> (\<exists>q. Number (data k) = Fin q \<and> 0 \<le> q)" by simp
    then show ?thesis using 1 [OF k] by (cases ver) auto
  qed
  have 4: "field_errors ver data k = []" if "k \<in> ?N \<and> data k = JNum (Fin (of_nat n))"
  proof -
    from that have k: "k \<in> ?N" and d: "data k = JNum (Fin (of_nat n))" by blast+
    from d have "\<exists>q. Number (data k) = Fin q \<and> 0 \<le> q" by simp
    then show ?thesis using 1 [OF k] by blast
  qed
  have 5: "field_errors ver data k = [too_small]"
    if "k \<in> ?N \<and> Number (data k) = Fin q \<and> q < 0"
  proof -
    from that have k: "k \<in> ?N" and n: "Number (data k) = Fin q" "q < 0" by blast+
    show ?thesis unfolding field_errors_numeric [OF k] using n by simp
  qed
  have 6: "field_errors ver data k = [invalid_type]" if "k \<in> ?N \<and> Number (data k) = NaN"
  proof -
    from that have k: "k \<in> ?N" and n: "Number (data k) = NaN" by blast+
    show ?thesis unfolding field_errors_numeric [OF k] using n by simp
  qed
  have 7: "field_errors ver data manualMarineDistance = []"
    if "data manualMarineDistance = JUndefined"
    using that by (simp add: field_errors_manualMarineDistance)
  have 8: "field_errors ver data manualMarineDistance = [invalid_type]"
    if "data manualMarineDistance \<noteq> JUndefined \<and> Number (data manualMarineDistance) = NaN"
    using that by (simp add: field_errors_manualMarineDistance)
  have 9: "field_errors ver data manualMarineDistance = []"
    if "\<exists>q. Number (data manualMarineDistance) = Fin q \<and> 0 \<le> q"
    using that by (auto simp add: field_errors_manualMarineDistance)
  from 1 2 3 4 5 6 7 8 9 show ?thesis by blast
qed

theorem C2_numeric_fields_witness:
  "quantity \<in> {quantity, internationalRoadDistance, localRoadDistance}
   \<and> is_decimal_string ''0.1''
   \<and> is_jsval (JStr ''0.1'')
   \<and> field_errors Zod3 (
        (projr (defaultInputRow
        [\<lparr>component.componentId = ''Cement'', component.greenMarkCategory = Some ''Concrete''\<rparr>]))(quantity := JStr ''0.1'')) quantity = []
   \<and> field_errors Zod4 (
        (projr (defaultInputRow
        [\<lparr>component.componentId = ''Cement'', component.greenMarkCategory = Some ''Concrete''\<rparr>]))(quantity := JStr ''0.1'')) quantity = []
   \<and> (\<exists>r. rowschema_safeParse Zod3 (
        (projr (defaultInputRow
        [\<lparr>component.componentId = ''Cement'', component.greenMarkCategory = Some ''Concrete''\<rparr>]))(quantity := JStr ''0.1'')) = Inr r
          \<and> r quantity = JNum (Fin (3602879701896397 / 36028797018963968)))
   \<and> field_errors Zod3 (
        (projr (defaultInputRow
        [\<lparr>component.componentId = ''Cement'', component.greenMarkCategory = Some ''Concrete''\<rparr>]))(quantity := JNum (Fin (of_nat 20)))) quantity = []
   \<and> field_errors Zod3 (
        (projr (defaultInputRow
        [\<lparr>component.componentId = ''Cement'', component.greenMarkCategory = Some ''Concrete''\<rparr>]))(quantity := JStr (CHR 0xC2 # CHR 0xA0 # ''12''))) quantity = []
   \<and> field_errors Zod3 (
        (projr (defaultInputRow
        [\<lparr>component.componentId = ''Cement'', component.greenMarkCategory = Some ''Concrete''\<rparr>]))(quantity := JStr ''-5'')) quantity = [too_small]
   \<and> field_errors Zod3 (
        (projr (defaultInputRow
        [\<lparr>component.componentId = ''Cement'', component.greenMarkCategory = Some ''Concrete''\<rparr>]))(quantity := JStr ''abc'')) quantity = [invalid_type]
   \<and> field_errors Zod3 (
        (projr (defaultInputRow
        [\<lparr>component.componentId = ''Cement'', component.greenMarkCategory = Some ''Concrete''\<rparr>]))(quantity := JStr ''0.1'')) manualMarineDistance = []
   \<and> field_errors Zod3 (
        (projr (defaultInputRow
        [\<lparr>component.componentId = ''Cement'', component.greenMarkCategory = Some ''Concrete''\<rparr>]))(manualMarineDistance := JStr ''abc'')) manualMarineDistance
      = [invalid_type]
   \<and> field_errors Zod3 (
        (projr (defaultInputRow
        [\<lparr>component.componentId = ''Cement'', component.greenMarkCategory = Some ''Concrete''\<rparr>]))(manualMarineDistance := JStr ''12.5'')) manualMarineDistance = []"
proof -
  let ?R = "
        (projr (defaultInputRow
        [\<lparr>component.componentId = ''Cement'', component.greenMarkCategory = Some ''Concrete''\<rparr>]))"
  note T = C2_numeric_fields_accept_nonnegative_coercions [where k = quantity]
  have k: "quantity \<in> {quantity, internationalRoadDistance, localRoadDistance}" by simp
  have d: "is_decimal_string ''0.1''" by code_simp
  have j: "is_jsval (JStr ''0.1'')" by (simp add: is_jsval_def)
  have v1: "(?R(quantity := JStr ''0.1'')) quantity = JStr ''0.1''" by simp
  have n1: "Number (JStr ''0.1'') = Fin (3602879701896397 / 36028797018963968)"
    by code_simp
  have n1': "Number ((?R(quantity := JStr ''0.1'')) quantity) \<noteq> PosInf"
    unfolding v1 n1 by simp
  have v2: "(?R(quantity := JNum (Fin (of_nat 20)))) quantity = JNum (Fin (of_nat 20))" by simp
  have n8: "Number (JStr (CHR 0xC2 # CHR 0xA0 # ''12'')) = Fin 12" by code_simp
  have e8: "\<exists>q. Number ((?R(quantity := JStr (CHR 0xC2 # CHR 0xA0 # ''12''))) quantity) = Fin q
      \<and> 0 \<le> q"
    using n8 by (intro exI [of _ 12]) simp
  have n3: "Number (JStr ''-5'') = Fin (- 5)" by code_simp
  have n3': "Number ((?R(quantity := JStr ''-5'')) quantity) = Fin (- 5) \<and> (- 5 :: rat) < 0"
    using n3 by simp
  have n4: "Number (JStr ''abc'') = NaN" by code_simp
  have n4': "Number ((?R(quantity := JStr ''abc'')) quantity) = NaN"
    using n4 by simp
  have n5: "(?R(quantity := JStr ''0.1'')) manualMarineDistance = JUndefined"
    by (simp add: defaultInputRow_def)
  have n6: "(?R(manualMarineDistance := JStr ''abc'')) manualMarineDistance \<noteq> JUndefined
      \<and> Number ((?R(manualMarineDistance := JStr ''abc'')) manualMarineDistance) = NaN"
    using n4 by simp
  have n7: "Number (JStr ''12.5'') = Fin (25 / 2)" by code_simp
  have e7: "\<exists>q. Number ((?R(manualMarineDistance := JStr ''12.5'')) manualMarineDistance) = Fin q
      \<and> 0 \<le> q"
    using n7 by (intro exI [of _ "25 / 2"]) simp
  have p: "case rowschema_safeParse Zod3 (?R(quantity := JStr ''0.1'')) of
        Inl issues \<Rightarrow> False | Inr r \<Rightarrow> True"
    by code_simp
  then obtain r where r: "rowschema_safeParse Zod3 (?R(quantity := JStr ''0.1'')) = Inr r"
    by (auto split: sum.splits)
  have a1: "field_errors Zod3 (?R(quantity := JStr ''0.1'')) quantity = []"
    using T [where ver = Zod3 and data = "?R(quantity := JStr ''0.1'')" and s = "''0.1''"]
      k v1 d n1'
    by blast
  have a1': "field_errors Zod4 (?R(quantity := JStr ''0.1'')) quantity = []"
    using T [where ver = Zod4 and data = "?R(quantity := JStr ''0.1'')" and s = "''0.1''"]
      k v1 d n1'
    by blast
  have "r quantity = JNum (Number ((?R(quantity := JStr ''0.1'')) quantity))"
    using T [where ver = Zod3 and data = "?R(quantity := JStr ''0.1'')"] k v1 j r by simp
  with r n1
  have a2: "\<exists>r. rowschema_safeParse Zod3 (?R(quantity := JStr ''0.1'')) = Inr r
          \<and> r quantity = JNum (Fin (3602879701896397 / 36028797018963968))"
    by simp
  have a3: "field_errors Zod3 (?R(quantity := JNum (Fin (of_nat 20)))) quantity = []"
    using T [where ver = Zod3 and data = "?R(quantity := JNum (Fin (of_nat 20)))" and n = 20]
      k v2
    by blast
  have a9: "field_errors Zod3 (?R(quantity := JStr (CHR 0xC2 # CHR 0xA0 # ''12''))) quantity = []"
    using T [where ver = Zod3 and data = "?R(quantity := JStr (CHR 0xC2 # CHR 0xA0 # ''12''))"]
      k e8
    by blast
  have a4: "field_errors Zod3 (?R(quantity := JStr ''-5'')) quantity = [too_small]"
    using T [where ver = Zod3 and data = "?R(quantity := JStr ''-5'')" and q = "- 5"] k n3'
    by blast
  have a5: "field_errors Zod3 (?R(quantity := JStr ''abc'')) quantity = [invalid_type]"
    using T [where ver = Zod3 and data = "?R(quantity := JStr ''abc'')"] k n4' by blast
  have a6: "field_errors Zod3 (?R(quantity := JStr ''0.1'')) manualMarineDistance = []"
    using T [where ver = Zod3 and data = "?R(quantity := JStr ''0.1'')"] n5 by blast
  have a7: "field_errors Zod3 (?R(manualMarineDistance := JStr ''abc'')) manualMarineDistance
      = [invalid_type]"
    using T [where ver = Zod3 and data = "?R(manualMarineDistance := JStr ''abc'')"] n6
    by blast
  have a8: "field_errors Zod3 (?R(manualMarineDistance := JStr ''12.5'')) manualMarineDistance = []"
    using T [where ver = Zod3 and data = "?R(manualMarineDistance := JStr ''12.5'')"] e7
    by blast
  from k d j a1 a1' a2 a3 a9 a4 a5 a6 a7 a8 show ?thesis by blast
qed

text \<open>
  C10 fails as it is stated. Clearing the quantity of the first row of the default form
  passes validation, and a parse of the row returns the number 0, but what the edit
  stores in the values the output is computed from is the empty string, not 0.
\<close>

theorem C10_counterexample:
  "field_errors Zod3
     (form_values.rows (Input_onChange (RowField 0 quantity) '''' 
        (projr (defaultValues
        [\<lparr>component.componentId = ''Cement'', component.greenMarkCategory = Some ''Concrete''\<rparr>]
        [\<lparr>buildingType = ''Office'', reference_value.referenceValue = Fin 1000\<rparr>]))) ! 0) quantity = []
   \<and> get_path (RowField 0 quantity)
        (form_watch (Input_onChange (RowField 0 quantity) '''' 
        (projr (defaultValues
        [\<lparr>component.componentId = ''Cement'', component.greenMarkCategory = Some ''Concrete''\<rparr>]
        [\<lparr>buildingType = ''Office'', reference_value.referenceValue = Fin 1000\<rparr>]))))
      = JStr ''''
   \<and> get_path (RowField 0 quantity)
        (form_watch (Input_onChange (RowField 0 quantity) '''' 
        (projr (defaultValues
        [\<lparr>component.componentId = ''Cement'', component.greenMarkCategory = Some ''Concrete''\<rparr>]
        [\<lparr>buildingType = ''Office'', reference_value.referenceValue = Fin 1000\<rparr>]))))
      \<noteq> JNum (Fin 0)"
  by code_simp

text \<open>
  C10, amended. The empty string under \<open>quantity\<close>, \<open>internationalRoadDistance\<close> or
  \<open>localRoadDistance\<close> coerces to 0: the schema reports no issue under the key, and a
  successful parse of the row returns the number 0 under it. Clearing such an input of a
  row that is there stores the empty string under the key in the values of the form, and
  the output is computed from them; the number 0 is only in what a parse returns.
\<close>

theorem C10_empty_string_validates_as_zero:
  assumes "k \<in> {quantity, internationalRoadDistance, localRoadDistance}"
    and "index < length (form_values.rows fv)"
  shows "field_errors ver ((form_values.rows fv ! index)(k := JStr '''')) k = []
       \<and> (\<forall>r. rowschema_safeParse ver ((form_values.rows fv ! index)(k := JStr '''')) = Inr r
              \<longrightarrow> r k = JNum (Fin 0))
       \<and> form_values.rows (form_watch (Input_onChange (RowField index k) '''' fv)) ! index
         = (form_values.rows fv ! index)(k := JStr '''')
       \<and> get_path (RowField index k) (form_watch (Input_onChange (RowField index k) '''' fv))
         = JStr ''''
       \<and> App_output calculateGreenMark (Input_onChange (RowField index k) '''' fv)
         = calculateGreenMark
             (fv\<lparr>form_values.rows :=
                   (form_values.rows fv)[index := (form_values.rows fv ! index)(k := JStr '''')]\<rparr>)"
proof -
  let ?data = "(form_values.rows fv ! index)(k := JStr '''')"
  have n: "Number (?data k) = Fin 0"
    by (simp add: StringToNumber_def trim_def strip_stop)
  have 1: "field_errors ver ?data k = []"
    unfolding field_errors_numeric [OF assms(1)] n by simp
  have 2: "r k = JNum (Fin 0)" if "rowschema_safeParse ver ?data = Inr r" for r
    using safeParse_value [OF that numeric_keys_schema [OF assms(1)]] n
    unfolding zparse_coerce_min0
    by simp
  have 3: "form_values.rows (form_watch (Input_onChange (RowField index k) '''' fv)) ! index = ?data"
    and 4: "get_path (RowField index k) (form_watch (Input_onChange (RowField index k) '''' fv))
         = JStr ''''"
    and 5: "App_output calculateGreenMark (Input_onChange (RowField index k) '''' fv)
         = calculateGreenMark
             (fv\<lparr>form_values.rows := (form_values.rows fv)[index := ?data]\<rparr>)"
    using assms(2)
    by (simp_all add: form_watch_def field_onChange_def Input_onChange_def App_output_def)
  from 1 2 3 4 5 show ?thesis by blast
qed

theorem C10_empty_string_witness:
  "quantity \<in> {quantity, internationalRoadDistance, localRoadDistance}
   \<and> 0 < length (form_values.rows 
        (projr (defaultValues
        [\<lparr>component.componentId = ''Cement'', component.greenMarkCategory = Some ''Concrete''\<rparr>]
        [\<lparr>buildingType = ''Office'', reference_value.referenceValue = Fin 1000\<rparr>])))
   \<and> field_errors Zod4 ((form_values.rows 
        (projr (defaultValues
        [\<lparr>component.componentId = ''Cement'', component.greenMarkCategory = Some ''Concrete''\<rparr>]
        [\<lparr>buildingType = ''Office'', reference_value.referenceValue = Fin 1000\<rparr>])) ! 0)(quantity := JStr '''')) quantity = []
   \<and> (\<exists>r. rowschema_safeParse Zod4 ((form_values.rows 
        (projr (defaultValues
        [\<lparr>component.componentId = ''Cement'', component.greenMarkCategory = Some ''Concrete''\<rparr>]
        [\<lparr>buildingType = ''Office'', reference_value.referenceValue = Fin 1000\<rparr>])) ! 0)(quantity := JStr '''')) = Inr r
          \<and> r quantity = JNum (Fin 0))
   \<and> get_path (RowField 0 quantity)
        (form_watch (Input_onChange (RowField 0 quantity) '''' 
        (projr (defaultValues
        [\<lparr>component.componentId = ''Cement'', component.greenMarkCategory = Some ''Concrete''\<rparr>]
        [\<lparr>buildingType = ''Office'', reference_value.referenceValue = Fin 1000\<rparr>]))))
      = JStr ''''"
proof -
  let ?FV = "
        (projr (defaultValues
        [\<lparr>component.componentId = ''Cement'', component.greenMarkCategory = Some ''Concrete''\<rparr>]
        [\<lparr>buildingType = ''Office'', reference_value.referenceValue = Fin 1000\<rparr>]))"
  let ?R = "(form_values.rows ?FV ! 0)(quantity := JStr '''')"
  have k: "quantity \<in> {quantity, internationalRoadDistance, localRoadDistance}" by simp
  have h: "0 < length (form_values.rows ?FV)"
    by (simp add: defaultValues_def defaultInputRow_def)
  have "case rowschema_safeParse Zod4 ?R of Inl issues \<Rightarrow> False | Inr r \<Rightarrow> True"
    by code_simp
  then have p: "\<exists>r. rowschema_safeParse Zod4 ?R = Inr r"
    by (auto split: sum.splits)
  from C10_empty_string_validates_as_zero [OF k h, where ver = Zod4] p k h
  show ?thesis by blast
qed

subsection \<open>Edits and the values the output is computed from\<close>

text \<open>What an edit of an input stores, whatever the schema says of the edited row.\<close>

lemma Input_onChange_row:
  assumes "index < length (form_values.rows fv)"
  shows "form_watch (Input_onChange (RowField index key) s fv)
         = fv\<lparr>form_values.rows :=
               (form_values.rows fv)[index := (form_values.rows fv ! index)(key := JStr s)]\<rparr>"
    and "get_path (RowField index key) (form_watch (Input_onChange (RowField index key) s fv))
         = JStr s"
  using assms
  by (simp_all add: form_watch_def field_onChange_def Input_onChange_def)

text \<open>
  C1 fails as it is stated. In the default form, typing \<open>-5\<close> into the quantity of the
  first row gives a row that the schema refuses with \<^verbatim>\<open>too_small\<close> under \<open>quantity\<close>, and
  the values that \<^verbatim>\<open>form.watch()\<close> returns, from which the output is computed, hold the
  string \<open>-5\<close> where they held the number 20.
\<close>

theorem C1_counterexample:
  "field_errors Zod3
     (form_values.rows (Input_onChange (RowField 0 quantity) ''-5'' 
        (projr (defaultValues
        [\<lparr>component.componentId = ''Cement'', component.greenMarkCategory = Some ''Concrete''\<rparr>]
        [\<lparr>buildingType = ''Office'', reference_value.referenceValue = Fin 1000\<rparr>]))) ! 0) quantity
   = [too_small]
   \<and> field_errors Zod4
     (form_values.rows (Input_onChange (RowField 0 quantity) ''-5'' 
        (projr (defaultValues
        [\<lparr>component.componentId = ''Cement'', component.greenMarkCategory = Some ''Concrete''\<rparr>]
        [\<lparr>buildingType = ''Office'', reference_value.referenceValue = Fin 1000\<rparr>]))) ! 0) quantity
   = [too_small]
   \<and> (case rowschema_safeParse Zod3
              (form_values.rows (Input_onChange (RowField 0 quantity) ''-5'' 
        (projr (defaultValues
        [\<lparr>component.componentId = ''Cement'', component.greenMarkCategory = Some ''Concrete''\<rparr>]
        [\<lparr>buildingType = ''Office'', reference_value.referenceValue = Fin 1000\<rparr>]))) ! 0) of
        Inl issues \<Rightarrow> issues = [(quantity, too_small)]
      | Inr r \<Rightarrow> False)
   \<and> get_path (RowField 0 quantity) (form_watch 
        (projr (defaultValues
        [\<lparr>component.componentId = ''Cement'', component.greenMarkCategory = Some ''Concrete''\<rparr>]
        [\<lparr>buildingType = ''Office'', reference_value.referenceValue = Fin 1000\<rparr>]))) = JNum (Fin 20)
   \<and> get_path (RowField 0 quantity)
        (form_watch (Input_onChange (RowField 0 quantity) ''-5'' 
        (projr (defaultValues
        [\<lparr>component.componentId = ''Cement'', component.greenMarkCategory = Some ''Concrete''\<rparr>]
        [\<lparr>buildingType = ''Office'', reference_value.referenceValue = Fin 1000\<rparr>]))))
   = JStr ''-5''"
  by code_simp

text \<open>
  C1, amended. For every edit of \<open>quantity\<close>, \<open>internationalRoadDistance\<close> or
  \<open>localRoadDistance\<close> of a row that is there whose value fails row validation, the typed
  string is stored under that key of that row in the values that \<^verbatim>\<open>form.watch()\<close> returns,
  the rest of the values stay as they were, and the output is computed from the values
  with the edit in them: the edit is not held back.
\<close>

theorem C1_failing_edit_is_stored:
  assumes "index < length (form_values.rows fv)"
    and "key \<in> {quantity, internationalRoadDistance, localRoadDistance}"
    and "field_errors ver ((form_values.rows fv ! index)(key := JStr s)) key \<noteq> []"
  shows "form_watch (Input_onChange (RowField index key) s fv)
         = fv\<lparr>form_values.rows :=
               (form_values.rows fv)[index := (form_values.rows fv ! index)(key := JStr s)]\<rparr>
       \<and> get_path (RowField index key) (form_watch (Input_onChange (RowField index key) s fv))
         = JStr s
       \<and> App_output calculateGreenMark (Input_onChange (RowField index key) s fv)
         = calculateGreenMark
             (fv\<lparr>form_values.rows :=
                   (form_values.rows fv)[index := (form_values.rows fv ! index)(key := JStr s)]\<rparr>)"
  using Input_onChange_row [OF assms(1), of key s]
  by (simp add: App_output_def)

theorem C1_failing_edit_witness:
  "0 < length (form_values.rows 
        (projr (defaultValues
        [\<lparr>component.componentId = ''Cement'', component.greenMarkCategory = Some ''Concrete''\<rparr>]
        [\<lparr>buildingType = ''Office'', reference_value.referenceValue = Fin 1000\<rparr>])))
   \<and> quantity \<in> {quantity, internationalRoadDistance, localRoadDistance}
   \<and> field_errors Zod3 ((form_values.rows 
        (projr (defaultValues
        [\<lparr>component.componentId = ''Cement'', component.greenMarkCategory = Some ''Concrete''\<rparr>]
        [\<lparr>buildingType = ''Office'', reference_value.referenceValue = Fin 1000\<rparr>])) ! 0)(quantity := JStr ''-5'')) quantity
      = [too_small]
   \<and> get_path (RowField 0 quantity) (form_watch 
        (projr (defaultValues
        [\<lparr>component.componentId = ''Cement'', component.greenMarkCategory = Some ''Concrete''\<rparr>]
        [\<lparr>buildingType = ''Office'', reference_value.referenceValue = Fin 1000\<rparr>]))) = JNum (Fin 20)
   \<and> get_path (RowField 0 quantity)
        (form_watch (Input_onChange (RowField 0 quantity) ''-5'' 
        (projr (defaultValues
        [\<lparr>component.componentId = ''Cement'', component.greenMarkCategory = Some ''Concrete''\<rparr>]
        [\<lparr>buildingType = ''Office'', reference_value.referenceValue = Fin 1000\<rparr>]))))
      = JStr ''-5''"
proof -
  let ?FV = "
        (projr (defaultValues
        [\<lparr>component.componentId = ''Cement'', component.greenMarkCategory = Some ''Concrete''\<rparr>]
        [\<lparr>buildingType = ''Office'', reference_value.referenceValue = Fin 1000\<rparr>]))"
  have h: "0 < length (form_values.rows ?FV)"
    by (simp add: defaultValues_def defaultInputRow_def)
  have k: "quantity \<in> {quantity, internationalRoadDistance, localRoadDistance}" by simp
  have f: "field_errors Zod3 ((form_values.rows ?FV ! 0)(quantity := JStr ''-5'')) quantity
      = [too_small]"
    by code_simp
  then have f': "field_errors Zod3 ((form_values.rows ?FV ! 0)(quantity := JStr ''-5'')) quantity
      \<noteq> []"
    by simp
  have b: "get_path (RowField 0 quantity) (form_watch ?FV) = JNum (Fin 20)"
    by (simp add: defaultValues_def defaultInputRow_def form_watch_def)
  from C1_failing_edit_is_stored [OF h k f'] h k f b
  show ?thesis by blast
qed

subsection \<open>Opening and closing a chooser\<close>

lemma form_OpenChange_events:
  "form (foldl (SelectInput_event m) u (map (\<lambda>cb. (fst cb, OpenChange (snd cb))) toggles)) = form u"
  by (induction toggles arbitrary: u) simp_all

text \<open>
  C8. Whatever sequence of open and close transitions the choosers go through, the
  values of the form, and so the value of the field a chooser is bound to, stay as they
  were; closing and reopening a chooser only changes its \<^verbatim>\<open>open\<close> state, on which the
  items depend: every option while open, at most the one item of the current value while
  closed.
\<close>

theorem C8_open_close_keeps_bound_values:
  "form (SelectInput_events m u (map (\<lambda>cb. (fst cb, OpenChange (snd cb))) toggles)) = form u
   \<and> get_path (chooser_name c)
        (form (SelectInput_events m u (map (\<lambda>cb. (fst cb, OpenChange (snd cb))) toggles)))
      = get_path (chooser_name c) (form u)
   \<and> form (SelectInput_events m u [(c, OpenChange False), (c, OpenChange True)]) = form u
   \<and> is_open (SelectInput_events m u [(c, OpenChange False), (c, OpenChange True)]) c
   \<and> \<not> is_open (SelectInput_events m u [(c, OpenChange False)]) c
   \<and> map item_value
        (chooser_items Number_toString (SelectInput_events m u [(c, OpenChange True)]) c
           (StringOptions os)) = os
   \<and> map item_value
        (chooser_items Number_toString (SelectInput_events m u [(c, OpenChange True)]) c
           (LabelledOptions los)) = map fst los
   \<and> length
        (chooser_items Number_toString (SelectInput_events m u [(c, OpenChange False)]) c options)
      \<le> 1"
  by (simp add: SelectInput_events_def form_OpenChange_events chooser_items_def
        SelectInput_items_def comp_def split: jsval.splits)

text \<open>
  While closed, the chooser of the reference value shows the decimal of the number the
  form holds, and every other chooser the string of its field.
\<close>

lemma closed_chooser_item:
  "form_values.referenceValue (form u) = JNum n \<Longrightarrow> \<not> is_open u ReferenceValueChooser \<Longrightarrow>
   Number_toString n \<noteq> [] \<Longrightarrow>
   map item_value (chooser_items Number_toString u ReferenceValueChooser options)
   = [Number_toString n]"
  "get_path (chooser_name c) (form u) = JStr s \<Longrightarrow> \<not> is_open u c \<Longrightarrow> s \<noteq> [] \<Longrightarrow>
   map item_value (chooser_items Number_toString u c options) = [s]"
  by (cases c; simp add: chooser_items_def chooser_value_def SelectInput_items_def)+

theorem C8_open_close_witness:
  "get_path (chooser_name (CountryChooser 0))
     (form (SelectInput_events Map.empty \<lparr>form = 
        (projr (defaultValues
        [\<lparr>component.componentId = ''Cement'', component.greenMarkCategory = Some ''Concrete''\<rparr>]
        [\<lparr>buildingType = ''Office'', reference_value.referenceValue = Fin 1000\<rparr>])), is_open = (\<lambda>_. False)\<rparr>
        (map (\<lambda>cb. (fst cb, OpenChange (snd cb)))
           [(CountryChooser 0, True), (UnitsChooser 0, True), (CountryChooser 0, False),
            (CountryChooser 0, True)])))
   = JStr ''Singapore''"
proof -
  let ?FV = "
        (projr (defaultValues
        [\<lparr>component.componentId = ''Cement'', component.greenMarkCategory = Some ''Concrete''\<rparr>]
        [\<lparr>buildingType = ''Office'', reference_value.referenceValue = Fin 1000\<rparr>]))"
  have v: "get_path (chooser_name (CountryChooser 0))
      (form \<lparr>form = ?FV, is_open = (\<lambda>_. False)\<rparr>) = JStr ''Singapore''"
    by (simp add: defaultValues_def defaultInputRow_def)
  from C8_open_close_keeps_bound_values
    [of Map.empty "\<lparr>form = ?FV, is_open = (\<lambda>_. False)\<rparr>"
       "[(CountryChooser 0, True), (UnitsChooser 0, True), (CountryChooser 0, False),
         (CountryChooser 0, True)]" "CountryChooser 0"] v
  show ?thesis by simp
qed

subsection \<open>The exported document\<close>

text \<open>
  C7. A click on the export button starts one download, named \<^verbatim>\<open>output.sbcc.json\<close>, of
  type \<^verbatim>\<open>application/json\<close>, whose document is the object with the keys \<open>version\<close>,
  \<open>totalEmissions\<close>, \<open>embodiedCarbonPerGfa\<close>, \<open>embodiedCarbonPerGfaComparedToReference\<close>,
  \<open>greenMarkScore\<close> and \<open>rows\<close>, the last an array with the keys \<open>a1a3\<close> and \<open>a4\<close> for
  every row of the output. The values are those of the output computed from the current
  form, a finite number written as that number and NaN or an infinity as \<^verbatim>\<open>null\<close>; so two
  forms with the same output export the same document, and the form is left as it was.
\<close>

theorem C7_export_serializes_output:
  "fst (download_onClick calculateGreenMark fv) = fv
   \<and> length (snd (download_onClick calculateGreenMark fv)) = 1
   \<and> map download (snd (download_onClick calculateGreenMark fv)) = [''output.sbcc.json'']
   \<and> map (blob_type \<circ> href) (snd (download_onClick calculateGreenMark fv)) = [''application/json'']
   \<and> map (blob_content \<circ> href) (snd (download_onClick calculateGreenMark fv))
      = [JsonObject
          [(''version'', JsonString (version (calculateGreenMark fv))),
           (''totalEmissions'', json_number (totalEmissions (calculateGreenMark fv))),
           (''embodiedCarbonPerGfa'', json_number (embodiedCarbonPerGfa (calculateGreenMark fv))),
           (''embodiedCarbonPerGfaComparedToReference'',
              json_number (embodiedCarbonPerGfaComparedToReference (calculateGreenMark fv))),
           (''greenMarkScore'', json_number (greenMarkScore (calculateGreenMark fv))),
           (''rows'',
              JsonArray (map (\<lambda>r. JsonObject [(''a1a3'', json_number (a1a3 r)),
                                              (''a4'', json_number (a4 r))])
                           (Output.rows (calculateGreenMark fv))))]]
   \<and> json_number (Fin q) = JsonNumber q
   \<and> json_number NaN = JsonNull
   \<and> json_number PosInf = JsonNull
   \<and> json_number NegInf = JsonNull
   \<and> (calculateGreenMark fv = calculateGreenMark fv' \<longrightarrow>
        snd (download_onClick calculateGreenMark fv) = snd (download_onClick calculateGreenMark fv'))"
  by (simp add: download_onClick_def App_output_def form_watch_def JSON_stringify_def
        json_output_row_def)

theorem C7_export_witness:
  "
        (\<lambda>fv. \<lparr>version = ''1.0.0'', totalEmissions = Fin (24691 / 2),
               embodiedCarbonPerGfa = Fin (24691 / 2000),
               embodiedCarbonPerGfaComparedToReference = NaN, greenMarkScore = Fin 2,
               Output.rows = map (\<lambda>r. \<lparr>a1a3 = Fin 12000, a4 = Fin (691 / 2)\<rparr>)
                               (form_values.rows fv)\<rparr>) 
        (projr (defaultValues
        [\<lparr>component.componentId = ''Cement'', component.greenMarkCategory = Some ''Concrete''\<rparr>]
        [\<lparr>buildingType = ''Office'', reference_value.referenceValue = Fin 1000\<rparr>])) = 
        (\<lambda>fv. \<lparr>version = ''1.0.0'', totalEmissions = Fin (24691 / 2),
               embodiedCarbonPerGfa = Fin (24691 / 2000),
               embodiedCarbonPerGfaComparedToReference = NaN, greenMarkScore = Fin 2,
               Output.rows = map (\<lambda>r. \<lparr>a1a3 = Fin 12000, a4 = Fin (691 / 2)\<rparr>)
                               (form_values.rows fv)\<rparr>) (
        (projr (defaultValues
        [\<lparr>component.componentId = ''Cement'', component.greenMarkCategory = Some ''Concrete''\<rparr>]
        [\<lparr>buildingType = ''Office'', reference_value.referenceValue = Fin 1000\<rparr>]))\<lparr>gfa := JStr ''2000''\<rparr>)
   \<and> snd (download_onClick 
        (\<lambda>fv. \<lparr>version = ''1.0.0'', totalEmissions = Fin (24691 / 2),
               embodiedCarbonPerGfa = Fin (24691 / 2000),
               embodiedCarbonPerGfaComparedToReference = NaN, greenMarkScore = Fin 2,
               Output.rows = map (\<lambda>r. \<lparr>a1a3 = Fin 12000, a4 = Fin (691 / 2)\<rparr>)
                               (form_values.rows fv)\<rparr>) 
        (projr (defaultValues
        [\<lparr>component.componentId = ''Cement'', component.greenMarkCategory = Some ''Concrete''\<rparr>]
        [\<lparr>buildingType = ''Office'', reference_value.referenceValue = Fin 1000\<rparr>])))
      = snd (download_onClick 
        (\<lambda>fv. \<lparr>version = ''1.0.0'', totalEmissions = Fin (24691 / 2),
               embodiedCarbonPerGfa = Fin (24691 / 2000),
               embodiedCarbonPerGfaComparedToReference = NaN, greenMarkScore = Fin 2,
               Output.rows = map (\<lambda>r. \<lparr>a1a3 = Fin 12000, a4 = Fin (691 / 2)\<rparr>)
                               (form_values.rows fv)\<rparr>) (
        (projr (defaultValues
        [\<lparr>component.componentId = ''Cement'', component.greenMarkCategory = Some ''Concrete''\<rparr>]
        [\<lparr>buildingType = ''Office'', reference_value.referenceValue = Fin 1000\<rparr>]))\<lparr>gfa := JStr ''2000''\<rparr>))
   \<and> map download (snd (download_onClick 
        (\<lambda>fv. \<lparr>version = ''1.0.0'', totalEmissions = Fin (24691 / 2),
               embodiedCarbonPerGfa = Fin (24691 / 2000),
               embodiedCarbonPerGfaComparedToReference = NaN, greenMarkScore = Fin 2,
               Output.rows = map (\<lambda>r. \<lparr>a1a3 = Fin 12000, a4 = Fin (691 / 2)\<rparr>)
                               (form_values.rows fv)\<rparr>) 
        (projr (defaultValues
        [\<lparr>component.componentId = ''Cement'', component.greenMarkCategory = Some ''Concrete''\<rparr>]
        [\<lparr>buildingType = ''Office'', reference_value.referenceValue = Fin 1000\<rparr>])))) = [''output.sbcc.json'']
   \<and> map (blob_content \<circ> href) (snd (download_onClick 
        (\<lambda>fv. \<lparr>version = ''1.0.0'', totalEmissions = Fin (24691 / 2),
               embodiedCarbonPerGfa = Fin (24691 / 2000),
               embodiedCarbonPerGfaComparedToReference = NaN, greenMarkScore = Fin 2,
               Output.rows = map (\<lambda>r. \<lparr>a1a3 = Fin 12000, a4 = Fin (691 / 2)\<rparr>)
                               (form_values.rows fv)\<rparr>) 
        (projr (defaultValues
        [\<lparr>component.componentId = ''Cement'', component.greenMarkCategory = Some ''Concrete''\<rparr>]
        [\<lparr>buildingType = ''Office'', reference_value.referenceValue = Fin 1000\<rparr>]))))
      = [JsonObject
          [(''version'', JsonString ''1.0.0''),
           (''totalEmissions'', JsonNumber (24691 / 2)),
           (''embodiedCarbonPerGfa'', JsonNumber (24691 / 2000)),
           (''embodiedCarbonPerGfaComparedToReference'', JsonNull),
           (''greenMarkScore'', JsonNumber 2),
           (''rows'', JsonArray [JsonObject [(''a1a3'', JsonNumber 12000),
                                            (''a4'', JsonNumber (691 / 2))]])]]"
proof -
  let ?calc = "
        (\<lambda>fv. \<lparr>version = ''1.0.0'', totalEmissions = Fin (24691 / 2),
               embodiedCarbonPerGfa = Fin (24691 / 2000),
               embodiedCarbonPerGfaComparedToReference = NaN, greenMarkScore = Fin 2,
               Output.rows = map (\<lambda>r. \<lparr>a1a3 = Fin 12000, a4 = Fin (691 / 2)\<rparr>)
                               (form_values.rows fv)\<rparr>)"
  let ?FV = "
        (projr (defaultValues
        [\<lparr>component.componentId = ''Cement'', component.greenMarkCategory = Some ''Concrete''\<rparr>]
        [\<lparr>buildingType = ''Office'', reference_value.referenceValue = Fin 1000\<rparr>]))"
  have e: "?calc ?FV = ?calc (?FV\<lparr>gfa := JStr ''2000''\<rparr>)"
    by simp
  have o: "?calc ?FV
      = \<lparr>version = ''1.0.0'', totalEmissions = Fin (24691 / 2),
         embodiedCarbonPerGfa = Fin (24691 / 2000),
         embodiedCarbonPerGfaComparedToReference = NaN, greenMarkScore = Fin 2,
         Output.rows = [\<lparr>a1a3 = Fin 12000, a4 = Fin (691 / 2)\<rparr>]\<rparr>"
    by (simp add: defaultValues_def defaultInputRow_def)
  note T = C7_export_serializes_output [of ?calc ?FV _ "?FV\<lparr>gfa := JStr ''2000''\<rparr>"]
  have j: "json_number (Fin q) = JsonNumber q" for q
    using C7_export_serializes_output [of ?calc ?FV q ?FV] by blast
  have n: "json_number NaN = JsonNull"
    using T by blast
  have 1: "snd (download_onClick ?calc ?FV)
      = snd (download_onClick ?calc (?FV\<lparr>gfa := JStr ''2000''\<rparr>))"
    using T e by blast
  have 2: "map download (snd (download_onClick ?calc ?FV)) = [''output.sbcc.json'']"
    using T by blast
  have 3: "map (blob_content \<circ> href) (snd (download_onClick ?calc ?FV))
      = [JsonObject
          [(''version'', JsonString ''1.0.0''),
           (''totalEmissions'', JsonNumber (24691 / 2)),
           (''embodiedCarbonPerGfa'', JsonNumber (24691 / 2000)),
           (''embodiedCarbonPerGfaComparedToReference'', JsonNull),
           (''greenMarkScore'', JsonNumber 2),
           (''rows'', JsonArray [JsonObject [(''a1a3'', JsonNumber 12000),
                                            (''a4'', JsonNumber (691 / 2))]])]]"
    using T unfolding o by (simp add: j n)
  from e 1 2 3 show ?thesis by blast
qed

end
